theory Spec2Isabelle
  imports Complex_Main
begin

section \<open>Python values and numerics\<close>

text \<open>
  The exceptions the modelled code can raise. Python floats are modelled by the real
  numbers they denote, with exact arithmetic; Python integers are unbounded, hence
  \<open>int\<close>.
\<close>

datatype py_error =
    ValueError
  | ZeroDivisionError
  | TypeError
  | AttributeError
  | UnboundLocalError
  | FileNotFoundError
  | OSError

text \<open>Python's \<open>round(x)\<close>: the nearest integer, a tie going to the even one.\<close>

definition py_round :: "real \<Rightarrow> int" where
  "py_round x =
     (let f = \<lfloor>x\<rfloor>; d = x - of_int f
      in if d < 1 / 2 then f else if 1 / 2 < d then f + 1 else if even f then f else f + 1)"

text \<open>
  Python's \<open>round(x, n)\<close>: rounding at the \<open>n\<close>-th decimal place, here of the exact
  value. Python rounds the binary float nearest to it, so the two can differ where the
  exact value is a decimal tie (33/200 at two places: 0.16 here, 0.17 in Python).
\<close>

definition py_round_ndigits :: "real \<Rightarrow> int \<Rightarrow> real" where
  "py_round_ndigits x n =
     (if 0 \<le> n then of_int (py_round (x * 10 ^ nat n)) / 10 ^ nat n
      else of_int (py_round (x / 10 ^ nat (- n))) * 10 ^ nat (- n))"

text \<open>Python's \<open>int(x)\<close> on a float: truncation towards zero.\<close>

definition py_int :: "real \<Rightarrow> int" where
  "py_int x = (if 0 \<le> x then \<lfloor>x\<rfloor> else \<lceil>x\<rceil>)"

section \<open>Configuration\<close>

text \<open>
  \<open>StateTracker.get_args()\<close>: the two settings the geometry code reads.
  \<open>aspect_bucket_rounding\<close> may be unset (\<open>None\<close>).
\<close>

record args =
  aspect_bucket_alignment :: int
  aspect_bucket_rounding :: "int option"

section \<open>Geometry resolver (helpers/multiaspect/image.py)\<close>

text \<open>
  \<open>_round_to_nearest_multiple\<close>: \<open>round(value / multiple) * multiple\<close>, at least
  \<open>multiple\<close>. The division raises when the alignment is zero.
\<close>

definition round_to_nearest_multiple :: "args \<Rightarrow> real \<Rightarrow> py_error + int" where
  "round_to_nearest_multiple cfg v =
     (let multiple = aspect_bucket_alignment cfg
      in if multiple = 0 then Inl ZeroDivisionError
         else Inr (max (py_round (v / of_int multiple) * multiple) multiple))"

text \<open>
  \<open>calculate_image_aspect_ratio\<close> on a \<open>(W, H)\<close> tuple and on a float. The precision
  is \<open>aspect_bucket_rounding\<close>, or the default 2 when that is unset.
\<close>

definition to_round :: "args \<Rightarrow> int" where
  "to_round cfg = (case aspect_bucket_rounding cfg of None \<Rightarrow> 2 | Some r \<Rightarrow> r)"

definition calculate_image_aspect_ratio :: "args \<Rightarrow> int \<times> int \<Rightarrow> py_error + real" where
  "calculate_image_aspect_ratio cfg size_tuple =
     (case size_tuple of (width, height) \<Rightarrow>
        if height = 0 then Inl ZeroDivisionError
        else Inr (py_round_ndigits (of_int width / of_int height) (to_round cfg)))"

definition calculate_image_aspect_ratio_float :: "args \<Rightarrow> real \<Rightarrow> real" where
  "calculate_image_aspect_ratio_float cfg ratio = py_round_ndigits ratio (to_round cfg)"

text \<open>
  The loop of \<open>calculate_new_size_by_pixel_edge\<close>: while the smaller side is below
  the resolution, widen by one alignment step and derive the height again from
  \<open>W_adjusted * aspect_ratio\<close>. Not returning is the value \<open>None\<close>.
\<close>

partial_function (option) pixel_edge_loop ::
  "args \<Rightarrow> real \<Rightarrow> real \<Rightarrow> int \<Rightarrow> int \<Rightarrow> (py_error + int \<times> int) option" where
  "pixel_edge_loop cfg aspect_ratio resolution W_adjusted H_adjusted =
     (if min (of_int W_adjusted) (of_int H_adjusted) < resolution
      then (case round_to_nearest_multiple cfg
                   (of_int (py_round
                      (of_int (W_adjusted + aspect_bucket_alignment cfg) * aspect_ratio))) of
              Inl e \<Rightarrow> Some (Inl e)
            | Inr H' \<Rightarrow>
                pixel_edge_loop cfg aspect_ratio resolution
                  (W_adjusted + aspect_bucket_alignment cfg) H')
      else Some (Inr (W_adjusted, H_adjusted)))"

text \<open>
  The unaligned dimensions: the resolution is the shorter edge. The type tests at the
  head of the function hold by typing here: \<open>aspect_ratio\<close> is a float, \<open>resolution\<close>
  a number.
\<close>

definition pixel_edge_initial :: "real \<Rightarrow> real \<Rightarrow> py_error + real \<times> real" where
  "pixel_edge_initial aspect_ratio resolution =
     (if 1 < aspect_ratio then Inr (resolution * aspect_ratio, resolution)
      else if aspect_ratio < 1 then
        (if aspect_ratio = 0 then Inl ZeroDivisionError
         else Inr (resolution, resolution / aspect_ratio))
      else Inr (resolution, resolution))"

text \<open>The closing step of both resolvers: the aspect ratio of the size found.\<close>

definition with_aspect_ratio ::
  "args \<Rightarrow> (py_error + int \<times> int) option \<Rightarrow> (py_error + int \<times> int \<times> real) option" where
  "with_aspect_ratio cfg r =
     (case r of
        None \<Rightarrow> None
      | Some (Inl e) \<Rightarrow> Some (Inl e)
      | Some (Inr (W, H)) \<Rightarrow>
          (case calculate_image_aspect_ratio cfg (W, H) of
             Inl e \<Rightarrow> Some (Inl e)
           | Inr ar \<Rightarrow> Some (Inr (W, H, ar))))"

definition calculate_new_size_by_pixel_edge ::
  "args \<Rightarrow> real \<Rightarrow> real \<Rightarrow> (py_error + int \<times> int \<times> real) option" where
  "calculate_new_size_by_pixel_edge cfg aspect_ratio resolution =
     (case pixel_edge_initial aspect_ratio resolution of
        Inl e \<Rightarrow> Some (Inl e)
      | Inr (W_initial, H_initial) \<Rightarrow>
          (case round_to_nearest_multiple cfg W_initial of
             Inl e \<Rightarrow> Some (Inl e)
           | Inr W_adjusted \<Rightarrow>
               (case round_to_nearest_multiple cfg H_initial of
                  Inl e \<Rightarrow> Some (Inl e)
                | Inr H_adjusted \<Rightarrow>
                    with_aspect_ratio cfg
                      (pixel_edge_loop cfg aspect_ratio resolution W_adjusted H_adjusted))))"

text \<open>
  The loop of \<open>calculate_new_size_by_pixel_area\<close>: while the area is below the pixel
  budget, widen by one alignment step and derive the height again from
  \<open>W_adjusted / aspect_ratio\<close>.
\<close>

partial_function (option) pixel_area_loop ::
  "args \<Rightarrow> real \<Rightarrow> real \<Rightarrow> int \<Rightarrow> int \<Rightarrow> (py_error + int \<times> int) option" where
  "pixel_area_loop cfg aspect_ratio total_pixels W_adjusted H_adjusted =
     (if of_int (W_adjusted * H_adjusted) < total_pixels
      then (if aspect_ratio = 0 then Some (Inl ZeroDivisionError)
            else (case round_to_nearest_multiple cfg
                         (of_int (py_round
                            (of_int (W_adjusted + aspect_bucket_alignment cfg) / aspect_ratio))) of
                    Inl e \<Rightarrow> Some (Inl e)
                  | Inr H' \<Rightarrow>
                      pixel_area_loop cfg aspect_ratio total_pixels
                        (W_adjusted + aspect_bucket_alignment cfg) H'))
      else Some (Inr (W_adjusted, H_adjusted)))"

text \<open>
  \<open>calculate_new_size_by_pixel_area\<close>. \<open>x ** 0.5\<close> is the square root; on a negative
  base Python yields a complex number, which \<open>round\<close> rejects with a TypeError.
\<close>

definition calculate_new_size_by_pixel_area ::
  "args \<Rightarrow> real \<Rightarrow> real \<Rightarrow> (py_error + int \<times> int \<times> real) option" where
  "calculate_new_size_by_pixel_area cfg aspect_ratio megapixels =
     (if aspect_ratio = 1 \<and> megapixels = 1 then Some (Inr (1024, 1024, 1))
      else if aspect_ratio = 1 \<and> megapixels = 0.75 then Some (Inr (768, 768, 1))
      else if aspect_ratio = 1 \<and> megapixels = 0.5 then Some (Inr (512, 512, 1))
      else
        (let total_pixels = max (megapixels * 1000000) 1000000
         in if total_pixels * aspect_ratio < 0 then Some (Inl TypeError)
            else if aspect_ratio = 0 then Some (Inl ZeroDivisionError)
            else if total_pixels / aspect_ratio < 0 then Some (Inl TypeError)
            else
              (let W_initial = py_round (sqrt (total_pixels * aspect_ratio));
                   H_initial = py_round (sqrt (total_pixels / aspect_ratio))
               in case round_to_nearest_multiple cfg (of_int W_initial) of
                    Inl e \<Rightarrow> Some (Inl e)
                  | Inr W_adjusted \<Rightarrow>
                      (case round_to_nearest_multiple cfg (of_int H_initial) of
                         Inl e \<Rightarrow> Some (Inl e)
                       | Inr H_adjusted \<Rightarrow>
                           with_aspect_ratio cfg
                             (pixel_area_loop cfg aspect_ratio total_pixels
                                W_adjusted H_adjusted)))))"

text \<open>\<open>is_image_too_large\<close>.\<close>

definition is_image_too_large :: "int \<times> int \<Rightarrow> real \<Rightarrow> string \<Rightarrow> py_error + bool" where
  "is_image_too_large image_size resolution resolution_type =
     (if resolution_type = ''pixel''
      then Inr (resolution < of_int (fst image_size) \<or> resolution < of_int (snd image_size))
      else if resolution_type = ''area''
      then Inr (resolution * 1000000 < of_int (fst image_size * snd image_size))
      else Inl ValueError)"

section \<open>Resize engine (helpers/multiaspect/image.py)\<close>

text \<open>
  A PIL image is modelled by its size, the size metadata by its \<open>original_size\<close>.
  The staged reduction: while a side exceeds 1.5 times its target, both sides shrink to
  \<open>int(side * 0.75)\<close>, never below the target. The list collects every intermediate
  size, in order.
\<close>

partial_function (option) resize_stages ::
  "int \<Rightarrow> int \<Rightarrow> int \<Rightarrow> int \<Rightarrow> (int \<times> int) list \<Rightarrow> (int \<times> int) list option" where
  "resize_stages target_width target_height current_width current_height stages =
     (if of_int target_width * 1.5 < real_of_int current_width
         \<or> of_int target_height * 1.5 < real_of_int current_height
      then (let intermediate_width = max (py_int (of_int current_width * 0.75)) target_width;
                intermediate_height = max (py_int (of_int current_height * 0.75)) target_height
            in resize_stages target_width target_height intermediate_width intermediate_height
                 (stages @ [(intermediate_width, intermediate_height)]))
      else Some stages)"

text \<open>
  What \<open>_resize_image\<close> returns: an image (its size), the metadata (its recorded
  \<open>original_size\<close>), or, on the no-op path of the metadata mode, the bare size tuple.
\<close>

datatype resize_output =
    OutImage "int \<times> int"
  | OutMetadata "int \<times> int"
  | OutSizeTuple "int \<times> int"

text \<open>
  \<open>_resize_image\<close>. The debug message built before the loop reads
  \<open>input_image.size\<close>; without an image that is an attribute of \<open>None\<close>, so the
  closing branch that records the target size in the metadata is never reached. The
  second component of the result lists the intermediate sizes.
\<close>

definition resize_image ::
  "(int \<times> int) option \<Rightarrow> int \<Rightarrow> int \<Rightarrow> (int \<times> int) option
     \<Rightarrow> (py_error + resize_output \<times> (int \<times> int) list) option" where
  "resize_image input_image target_width target_height image_metadata =
     (case (case input_image of Some s \<Rightarrow> Some s | None \<Rightarrow> image_metadata) of
        None \<Rightarrow> Some (Inl UnboundLocalError)
      | Some current_size \<Rightarrow>
          if (target_width, target_height) = current_size
          then (case input_image of
                  Some s \<Rightarrow> Some (Inr (OutImage s, []))
                | None \<Rightarrow> Some (Inr (OutSizeTuple current_size, [])))
          else (case input_image of
                  None \<Rightarrow> Some (Inl AttributeError)
                | Some s \<Rightarrow>
                    (case resize_stages target_width target_height
                            (fst current_size) (snd current_size) [] of
                       None \<Rightarrow> None
                     | Some stages \<Rightarrow>
                         Some (Inr (OutImage (target_width, target_height), stages)))))"

section \<open>Image preparation (helpers/multiaspect/image.py)\<close>

text \<open>
  The per-backend settings \<open>prepare_image\<close> reads, each after its \<open>.get\<close> default
  (\<open>crop\<close>: False, the two sizes: None, \<open>crop_style\<close>: random, \<open>crop_aspect\<close>: square).
\<close>

record backend_config =
  crop :: bool
  maximum_image_size :: "real option"
  target_downsample_size :: "real option"
  crop_style :: string
  crop_aspect :: string

text \<open>Python truthiness of an optional number: neither None nor zero.\<close>

definition truthy :: "real option \<Rightarrow> bool" where
  "truthy v = (case v of None \<Rightarrow> False | Some x \<Rightarrow> x \<noteq> 0)"

datatype crop_handler = CornerCropping | CenterCropping | RandomCropping

definition crop_handlers :: "string \<Rightarrow> crop_handler option" where
  "crop_handlers style =
     (if style = ''corner'' then Some CornerCropping
      else if style = ''centre'' then Some CenterCropping
      else if style = ''center'' then Some CenterCropping
      else if style = ''random'' then Some RandomCropping
      else None)"

text \<open>
  The cropping classes are not part of the modelled files: \<open>crop_fn\<close> stands for
  constructing a handler on \<open>(image, image_metadata)\<close> and calling \<open>crop\<close> on a width
  and height; it yields the size of the result and the crop coordinates.
\<close>

type_synonym crop_fn =
  "crop_handler \<Rightarrow> (int \<times> int) option \<Rightarrow> (int \<times> int) option \<Rightarrow> int \<Rightarrow> int
     \<Rightarrow> (int \<times> int) \<times> (int \<times> int)"

text \<open>The local variables of \<open>prepare_image\<close> when it returns.\<close>

record prepared =
  final_image :: "(int \<times> int) option"
  target_width :: int
  target_height :: int
  new_aspect_ratio :: real
  crop_coordinates :: "int \<times> int"

text \<open>The returned triple: the image, or in metadata mode the target size, comes first.\<close>

definition prepare_image_return :: "prepared \<Rightarrow> (int \<times> int) \<times> (int \<times> int) \<times> real" where
  "prepare_image_return p =
     (case final_image p of
        Some s \<Rightarrow> (s, crop_coordinates p, new_aspect_ratio p)
      | None \<Rightarrow> ((target_width p, target_height p), crop_coordinates p, new_aspect_ratio p))"

text \<open>Sequencing of steps that may raise or not return.\<close>

definition bind_result ::
  "(py_error + 'a) option \<Rightarrow> ('a \<Rightarrow> (py_error + 'b) option) \<Rightarrow> (py_error + 'b) option" where
  "bind_result r f =
     (case r of None \<Rightarrow> None | Some (Inl e) \<Rightarrow> Some (Inl e) | Some (Inr x) \<Rightarrow> f x)"

text \<open>
  The size derivation: the image if there is one, else the metadata, else nothing.
  Metadata, when given, carries its \<open>original_size\<close>.
\<close>

definition derive_image_size :: "(int \<times> int) option \<Rightarrow> (int \<times> int) option \<Rightarrow> (int \<times> int) option" where
  "derive_image_size img image_metadata =
     (case img of Some s \<Rightarrow> Some s | None \<Rightarrow> image_metadata)"

text \<open>
  The downsample decision: the resolution to size by, and \<open>downsample_before_crop\<close>.
\<close>

definition downsample_decision ::
  "backend_config \<Rightarrow> int \<times> int \<Rightarrow> real \<Rightarrow> string \<Rightarrow> py_error + real \<times> bool" where
  "downsample_decision bcfg image_size resolution resolution_type =
     (if crop bcfg \<and> truthy (maximum_image_size bcfg) \<and> truthy (target_downsample_size bcfg)
      then (case is_image_too_large image_size (the (maximum_image_size bcfg)) resolution_type of
              Inl e \<Rightarrow> Inl e
            | Inr too_large \<Rightarrow>
                if too_large then Inr (the (target_downsample_size bcfg), True)
                else Inr (resolution, False))
      else Inr (resolution, False))"

text \<open>
  The size by resolution type; an unknown type is a ValueError. In area mode the code
  then overwrites its local \<open>resolution\<close> with the aligned pixel equivalent, which
  only a debug message reads; with the alignment already known to be nonzero that
  rounding cannot raise.
\<close>

definition calculate_new_size ::
  "args \<Rightarrow> string \<Rightarrow> real \<Rightarrow> real \<Rightarrow> (py_error + int \<times> int \<times> real) option" where
  "calculate_new_size cfg resolution_type aspect_ratio resolution =
     (if resolution_type = ''pixel''
      then calculate_new_size_by_pixel_edge cfg aspect_ratio resolution
      else if resolution_type = ''area''
      then calculate_new_size_by_pixel_area cfg aspect_ratio resolution
      else Some (Inl ValueError))"

text \<open>
  The recomputation after the pre-shrink, from \<open>original_resolution\<close>: the caller's
  resolution (times 1000 in area mode) rounded to the alignment; in area mode it is
  divided by 1000 again.
\<close>

definition recalculate_target ::
  "args \<Rightarrow> string \<Rightarrow> real \<Rightarrow> int \<Rightarrow> int \<times> int \<times> real
     \<Rightarrow> (py_error + int \<times> int \<times> real) option" where
  "recalculate_target cfg resolution_type original_aspect_ratio original_resolution current =
     (if resolution_type = ''area''
      then calculate_new_size_by_pixel_area cfg original_aspect_ratio
             (of_int original_resolution / 1000)
      else if resolution_type = ''pixel''
      then calculate_new_size_by_pixel_edge cfg original_aspect_ratio
             (of_int original_resolution)
      else Some (Inr current))"

text \<open>
  The crop branch. With \<open>downsample_before_crop\<close> the debug message reads
  \<open>image.size\<close> (an AttributeError without an image), the image is resized to the target
  of the downsample resolution, and the target is computed again. The handler was built
  on the image as it was before that resize.
\<close>

definition crop_branch ::
  "args \<Rightarrow> backend_config \<Rightarrow> crop_fn \<Rightarrow> string \<Rightarrow> (int \<times> int) option \<Rightarrow> (int \<times> int) option
     \<Rightarrow> real \<Rightarrow> int \<Rightarrow> bool \<Rightarrow> int \<times> int \<times> real \<Rightarrow> (py_error + prepared) option" where
  "crop_branch cfg bcfg crop_fn resolution_type img image_metadata original_aspect_ratio
       original_resolution downsample_before_crop target =
     (case crop_handlers (crop_style bcfg) of
        None \<Rightarrow> Some (Inl ValueError)
      | Some handler \<Rightarrow>
          bind_result
            (if downsample_before_crop
             then (case img of
                     None \<Rightarrow> Some (Inl AttributeError)
                   | Some s \<Rightarrow>
                       bind_result (resize_image (Some s) (fst target) (fst (snd target)) None)
                         (\<lambda>resized.
                            recalculate_target cfg resolution_type original_aspect_ratio
                              original_resolution target))
             else Some (Inr target))
            (\<lambda>(target_w, target_h, new_ar).
               let (crop_width, crop_height) =
                     (if crop_aspect bcfg = ''square''
                      then (original_resolution, original_resolution)
                      else (target_w, target_h));
                   (result, coordinates) =
                     crop_fn handler img image_metadata crop_width crop_height
               in Some (Inr \<lparr>final_image = (case img of None \<Rightarrow> None | Some s \<Rightarrow> Some result),
                             target_width = target_w, target_height = target_h,
                             new_aspect_ratio = new_ar, crop_coordinates = coordinates\<rparr>)))"

text \<open>Without cropping the image, if any, is resized to the target.\<close>

definition no_crop_branch ::
  "(int \<times> int) option \<Rightarrow> int \<times> int \<times> real \<Rightarrow> (py_error + prepared) option" where
  "no_crop_branch img target =
     (case target of (target_w, target_h, new_ar) \<Rightarrow>
        (case img of
           None \<Rightarrow>
             Some (Inr \<lparr>final_image = None, target_width = target_w, target_height = target_h,
                        new_aspect_ratio = new_ar, crop_coordinates = (0, 0)\<rparr>)
         | Some s \<Rightarrow>
             bind_result (resize_image (Some s) target_w target_h None)
               (\<lambda>(out, stages).
                  Some (Inr \<lparr>final_image =
                               Some (case out of OutImage z \<Rightarrow> z | OutMetadata z \<Rightarrow> z
                                     | OutSizeTuple z \<Rightarrow> z),
                             target_width = target_w, target_height = target_h,
                             new_aspect_ratio = new_ar, crop_coordinates = (0, 0)\<rparr>))))"

text \<open>
  \<open>prepare_image\<close>. Unpacking \<open>image_size\<close> when neither an image nor metadata was
  given reads a local variable that was never assigned.
\<close>

definition prepare_image ::
  "args \<Rightarrow> backend_config \<Rightarrow> crop_fn \<Rightarrow> real \<Rightarrow> (int \<times> int) option \<Rightarrow> (int \<times> int) option
     \<Rightarrow> string \<Rightarrow> (py_error + prepared) option" where
  "prepare_image cfg bcfg crop_fn resolution img image_metadata resolution_type =
     (case derive_image_size img image_metadata of
        None \<Rightarrow> Some (Inl UnboundLocalError)
      | Some image_size \<Rightarrow>
          bind_result
            (Some (round_to_nearest_multiple cfg
                     (if resolution_type = ''area'' then resolution * 1000 else resolution)))
            (\<lambda>original_resolution.
          bind_result (Some (downsample_decision bcfg image_size resolution resolution_type))
            (\<lambda>(resolution', downsample_before_crop).
          bind_result (Some (calculate_image_aspect_ratio cfg image_size))
            (\<lambda>original_aspect_ratio.
          bind_result (calculate_new_size cfg resolution_type original_aspect_ratio resolution')
            (\<lambda>target.
               if crop bcfg
               then crop_branch cfg bcfg crop_fn resolution_type img image_metadata
                      original_aspect_ratio original_resolution downsample_before_crop target
               else no_crop_branch img target)))))"

text \<open>
  The final \<open>(target_width, target_height)\<close> of a run of \<open>prepare_image\<close>, and the
  \<open>(width, height)\<close> of a resolver's result; \<open>None\<close> when there is no result.
\<close>

definition prepared_target :: "(py_error + prepared) option \<Rightarrow> (int \<times> int) option" where
  "prepared_target r =
     (case r of Some (Inr p) \<Rightarrow> Some (target_width p, target_height p) | _ \<Rightarrow> None)"

definition resolver_size :: "(py_error + int \<times> int \<times> real) option \<Rightarrow> (int \<times> int) option" where
  "resolver_size r = (case r of Some (Inr (W, H, ar)) \<Rightarrow> Some (W, H) | _ \<Rightarrow> None)"

text \<open>
  A configuration for concrete runs: alignment 64, default rounding; cropping on with a
  maximum image size of 2048 and a downsample size of 1024 (pixel mode), or of 4 and 2
  megapixels (area mode); a crop function that keeps the requested size at the origin.
\<close>

abbreviation example_args :: args where
  "example_args \<equiv> \<lparr>aspect_bucket_alignment = 64, aspect_bucket_rounding = None\<rparr>"

abbreviation example_backend :: backend_config where
  "example_backend \<equiv>
     \<lparr>crop = True, maximum_image_size = Some 2048, target_downsample_size = Some 1024,
      crop_style = ''center'', crop_aspect = ''square''\<rparr>"

abbreviation example_area_backend :: backend_config where
  "example_area_backend \<equiv>
     \<lparr>crop = True, maximum_image_size = Some 4, target_downsample_size = Some 2,
      crop_style = ''center'', crop_aspect = ''square''\<rparr>"

abbreviation example_crop_fn :: crop_fn where
  "example_crop_fn \<equiv> (\<lambda>handler im md w h. ((w, h), (0, 0)))"

section \<open>Bucket index store (helpers/legacy/dreambooth_dataset.py)\<close>

text \<open>
  A Python dict keeps its keys in insertion order: an association list with distinct
  keys. The bucket index maps \<open>str(aspect_ratio)\<close> to the list of file paths.
\<close>

type_synonym bucket_index = "(string \<times> string list) list"

text \<open>\<open>d[k] = v\<close>: replace the value of an existing key in place, else append the key.\<close>

fun dict_setitem :: "('k \<times> 'v) list \<Rightarrow> 'k \<Rightarrow> 'v \<Rightarrow> ('k \<times> 'v) list" where
  "dict_setitem [] k v = [(k, v)]"
| "dict_setitem ((k', v') # d) k v =
     (if k' = k then (k, v) # d else (k', v') # dict_setitem d k v)"

text \<open>\<open>d.update(other)\<close>: every key of \<open>other\<close> is set to the value it has in \<open>other\<close>.\<close>

fun dict_update :: "('k \<times> 'v) list \<Rightarrow> ('k \<times> 'v) list \<Rightarrow> ('k \<times> 'v) list" where
  "dict_update d [] = d"
| "dict_update d ((k, v) # other) = dict_update (dict_setitem d k v) other"

text \<open>\<open>d[k].append(x)\<close> for a key that is present.\<close>

fun dict_list_append :: "('k \<times> 'a list) list \<Rightarrow> 'k \<Rightarrow> 'a \<Rightarrow> ('k \<times> 'a list) list" where
  "dict_list_append [] k x = []"
| "dict_list_append ((k', v) # d) k x =
     (if k' = k then (k', v @ [x]) # d else (k', v) # dict_list_append d k x)"

text \<open>The files of all buckets: \<open>set().union(*d.values())\<close>.\<close>

definition bucket_files :: "bucket_index \<Rightarrow> string set" where
  "bucket_files d = set (concat (map snd d))"

text \<open>
  \<open>str\<close> of a float that \<open>round(x, 2)\<close> produced from an image's width over its height:
  a non-negative number of hundredths, printed with its integer part, a point, and one
  or two decimals (no trailing zero beyond the first decimal).
\<close>

fun str_nat :: "nat \<Rightarrow> string" where
  "str_nat n =
     (if n < 10 then [''0123456789'' ! n] else str_nat (n div 10) @ [''0123456789'' ! (n mod 10)])"

definition str_float :: "real \<Rightarrow> string" where
  "str_float x =
     (let hundredths = nat (py_round (x * 100));
          whole = hundredths div 100;
          frac = hundredths mod 100
      in str_nat whole @ ''.'' @
         (if frac mod 10 = 0 then str_nat (frac div 10)
          else str_nat (frac div 10) @ str_nat (frac mod 10)))"

text \<open>
  \<open>Image.open\<close> followed by \<open>exif_transpose\<close>: the width and height of the file at a
  path, or the exception raised on a file that cannot be decoded.
\<close>

type_synonym image_store = "string \<Rightarrow> py_error + int \<times> int"

datatype log_record =
    LogInfo string
  | LogWarning string
  | LogError string
  | LogException py_error

text \<open>
  \<open>_process_image\<close>: the updated mapping and what was logged. Every exception of the
  \<open>try\<close> block is caught, logged, and the mapping returned as it is.
\<close>

definition process_image ::
  "image_store \<Rightarrow> string \<Rightarrow> bucket_index \<Rightarrow> bucket_index \<times> log_record list" where
  "process_image store image_path_str aspect_ratio_bucket_indices =
     (case store image_path_str of
        Inl e \<Rightarrow>
          (aspect_ratio_bucket_indices,
           [LogError (''Error processing image '' @ image_path_str @ ''.''), LogException e])
      | Inr (width, height) \<Rightarrow>
          if height = 0
          then (aspect_ratio_bucket_indices,
                [LogError (''Error processing image '' @ image_path_str @ ''.''),
                 LogException ZeroDivisionError])
          else
            (let aspect_ratio = py_round_ndigits (of_int width / of_int height) 2;
                 key = str_float aspect_ratio;
                 with_bucket =
                   (if map_of aspect_ratio_bucket_indices key = None
                    then dict_setitem aspect_ratio_bucket_indices key []
                    else aspect_ratio_bucket_indices)
             in (dict_list_append with_bucket key image_path_str, [])))"

text \<open>
  \<open>_bucket_worker\<close> on its shard, in a forked process with its own copy of the index:
  the progress messages, the partial mappings put on the result queue, and the log.
  The copy accumulates over the files of the shard. A message is the mapping as it is
  at the \<open>put\<close>; the queue pickles it a little later, so a real message may already hold
  later files of the same shard, never files of another worker.
\<close>

fun bucket_worker ::
  "image_store \<Rightarrow> string list \<Rightarrow> bucket_index \<Rightarrow> string set
     \<Rightarrow> nat list \<times> bucket_index list \<times> log_record list" where
  "bucket_worker store [] own_indices existing_files_set = ([], [], [])"
| "bucket_worker store (file # files) own_indices existing_files_set =
     (if file \<in> existing_files_set
      then (case bucket_worker store files own_indices existing_files_set of
              (progress, partials, logged) \<Rightarrow> (1 # progress, partials, logged))
      else (case process_image store file own_indices of
              (own_indices', logged1) \<Rightarrow>
                (case bucket_worker store files own_indices' existing_files_set of
                   (progress, partials, logged) \<Rightarrow>
                     (1 # progress, own_indices' # partials, logged1 @ logged))))"

text \<open>\<open>numpy.array_split\<close>: the first \<open>len mod sections\<close> parts hold one element more.\<close>

fun split_sizes :: "'a list \<Rightarrow> nat list \<Rightarrow> 'a list list" where
  "split_sizes xs [] = []"
| "split_sizes xs (n # ns) = take n xs # split_sizes (drop n xs) ns"

definition array_split :: "'a list \<Rightarrow> nat \<Rightarrow> 'a list list" where
  "array_split xs sections =
     (let each = length xs div sections; extras = length xs mod sections
      in split_sizes xs (replicate extras (each + 1) @ replicate (sections - extras) each))"

text \<open>
  The orders in which the coordinator can take the partial mappings off the queue:
  every interleaving of the workers' sequences.
\<close>

fun interleavings :: "'a list list \<Rightarrow> 'a list set" where
  "interleavings [] = {[]}"
| "interleavings (q # qs) = (\<Union>ms \<in> interleavings qs. shuffles q ms)"

text \<open>The coordinator's merge: \<open>update\<close> with each partial mapping as it arrives.\<close>

fun coordinator_merge :: "bucket_index \<Rightarrow> bucket_index list \<Rightarrow> bucket_index" where
  "coordinator_merge indices [] = indices"
| "coordinator_merge indices (partial # rest) =
     coordinator_merge (dict_update indices partial) rest"

text \<open>
  The dataset object. \<open>instance_images_path\<close> starts as the directory listing (path
  objects); the bulk computation appends strings.
\<close>

datatype path_item = PathObject string | PathString string

record dataset =
  aspect_ratio_bucket_indices :: bucket_index
  instance_images_path :: "path_item list"
  num_instance_images :: nat
  dataset_length :: nat

text \<open>
  JSON values, and a cache file as \<open>json.load\<close> sees it: a text that parses to a value,
  or a text that does not parse.
\<close>

datatype json =
    JNull
  | JNumber real
  | JString string
  | JArray "json list"
  | JObject "(string \<times> json) list"

datatype file_text = JsonText json | NotJson string

text \<open>What \<open>json.dump\<close> writes for the bucket mapping.\<close>

definition index_to_json :: "bucket_index \<Rightarrow> json" where
  "index_to_json d = JObject (map (\<lambda>(k, files). (k, JArray (map JString files))) d)"

text \<open>Reading a JSON object of string arrays back as a bucket mapping.\<close>

fun json_strings :: "json list \<Rightarrow> string list option" where
  "json_strings [] = Some []"
| "json_strings (JString s # js) = map_option (\<lambda>ss. s # ss) (json_strings js)"
| "json_strings (j # js) = None"

fun json_buckets :: "(string \<times> json) list \<Rightarrow> bucket_index option" where
  "json_buckets [] = Some []"
| "json_buckets ((k, JArray js) # kvs) =
     (case json_strings js of
        None \<Rightarrow> None
      | Some files \<Rightarrow> map_option (\<lambda>d. (k, files) # d) (json_buckets kvs))"
| "json_buckets (kv # kvs) = None"

definition json_to_index :: "json \<Rightarrow> bucket_index option" where
  "json_to_index j = (case j of JObject kvs \<Rightarrow> json_buckets kvs | _ \<Rightarrow> None)"

text \<open>
  \<open>load_aspect_ratio_bucket_indices\<close>: the file is opened before the \<open>try\<close>; only
  \<open>json.load\<close> is guarded. The result is what was loaded, or the exception raised,
  with what was logged.
\<close>

definition load_aspect_ratio_bucket_indices ::
  "string \<Rightarrow> file_text option \<Rightarrow> (py_error + json) \<times> log_record list" where
  "load_aspect_ratio_bucket_indices cache_path cache_file =
     (case cache_file of
        None \<Rightarrow>
          (Inl FileNotFoundError,
           [LogInfo ''Loading aspect ratio bucket indices from cache file.''])
      | Some (NotJson text) \<Rightarrow>
          (Inr (JObject []),
           [LogInfo ''Loading aspect ratio bucket indices from cache file.'',
            LogWarning (''Could not load aspect ratio bucket indices from '' @ cache_path
                        @ ''. Creating a new one!''),
            LogInfo ''Loading of aspect bucket indexes completed.''])
      | Some (JsonText loaded) \<Rightarrow>
          (Inr loaded,
           [LogInfo ''Loading aspect ratio bucket indices from cache file.'',
            LogInfo ''Loading of aspect bucket indexes completed.'']))"

text \<open>
  \<open>compute_aspect_ratio_bucket_indices\<close>, given the files found under the root. The
  partial mappings each worker puts on the queue:
\<close>

definition worker_queues :: "image_store \<Rightarrow> string list \<Rightarrow> dataset \<Rightarrow> bucket_index list list" where
  "worker_queues store all_image_files self =
     map (\<lambda>files.
            fst (snd (bucket_worker store files (aspect_ratio_bucket_indices self)
                        (bucket_files (aspect_ratio_bucket_indices self)))))
         (array_split all_image_files 8)"

text \<open>
  The rest of the run for one arrival order of the partial mappings: the merge, the
  update of the object, and the cache file written. The local mapping is the object's
  own dict when that is non-empty (then the merge mutates it), else a fresh one. The
  result is the object, the cache file and the returned mapping.
\<close>

definition compute_with_arrivals ::
  "string list \<Rightarrow> dataset \<Rightarrow> bucket_index list \<Rightarrow> dataset \<times> file_text \<times> bucket_index" where
  "compute_with_arrivals all_image_files self arrivals =
     (let merged = coordinator_merge (aspect_ratio_bucket_indices self) arrivals;
          new_file_paths =
            map PathString
              (filter (\<lambda>file. PathString file \<notin> set (instance_images_path self))
                      all_image_files);
          paths = instance_images_path self @ new_file_paths
      in (self\<lparr>aspect_ratio_bucket_indices :=
                  (if aspect_ratio_bucket_indices self = [] then [] else merged),
                instance_images_path := paths,
                num_instance_images := length paths,
                dataset_length := length all_image_files\<rparr>,
          JsonText (index_to_json merged),
          merged))"

text \<open>Every outcome the run can have.\<close>

definition compute_aspect_ratio_bucket_indices ::
  "image_store \<Rightarrow> string list \<Rightarrow> dataset \<Rightarrow> (dataset \<times> file_text \<times> bucket_index) set" where
  "compute_aspect_ratio_bucket_indices store all_image_files self =
     compute_with_arrivals all_image_files self `
       interleavings (worker_queues store all_image_files self)"

text \<open>\<open>__init__\<close> stores the mapping that \<open>assign_to_buckets\<close> returned.\<close>

definition store_result :: "dataset \<times> file_text \<times> bucket_index \<Rightarrow> dataset" where
  "store_result outcome =
     (case outcome of (self, written, indices) \<Rightarrow>
        self\<lparr>aspect_ratio_bucket_indices := indices\<rparr>)"

text \<open>The mappings a run can return.\<close>

definition returned_mappings :: "image_store \<Rightarrow> string list \<Rightarrow> dataset \<Rightarrow> bucket_index set" where
  "returned_mappings store all_image_files self =
     (\<lambda>outcome. snd (snd outcome)) ` compute_aspect_ratio_bucket_indices store all_image_files self"

text \<open>
  For concrete runs: a fresh dataset object with an empty directory listing, and a
  store in which every file decodes to a 512 x 512 image.
\<close>

abbreviation fresh_dataset :: dataset where
  "fresh_dataset \<equiv>
     \<lparr>aspect_ratio_bucket_indices = [], instance_images_path = [],
      num_instance_images = 0, dataset_length = 0\<rparr>"

abbreviation square_store :: image_store where
  "square_store \<equiv> (\<lambda>path. Inr (512, 512))"

text \<open>A store in which one file cannot be decoded.\<close>

abbreviation bad_store :: image_store where
  "bad_store \<equiv> (\<lambda>path. if path = ''bad.png'' then Inl OSError else Inr (512, 512))"

section \<open>The area-mode algorithm in the words of the specification\<close>

text \<open>
  For comparison with \<open>calculate_new_size_by_pixel_area\<close>. Rounding to the nearest
  multiple of the alignment constant, at least one multiple:
\<close>

definition spec_nearest_multiple :: "int \<Rightarrow> real \<Rightarrow> int" where
  "spec_nearest_multiple alignment v =
     max (py_round (v / of_int alignment) * alignment) alignment"

text \<open>
  The initial dimensions: the rounded square roots of \<open>total_pixels * aspect_ratio\<close> and
  \<open>total_pixels / aspect_ratio\<close>, both aligned.
\<close>

definition spec_area_start :: "int \<Rightarrow> real \<Rightarrow> real \<Rightarrow> int \<times> int" where
  "spec_area_start alignment aspect_ratio total_pixels =
     (spec_nearest_multiple alignment (of_int (py_round (sqrt (total_pixels * aspect_ratio)))),
      spec_nearest_multiple alignment (of_int (py_round (sqrt (total_pixels / aspect_ratio)))))"

text \<open>
  The dimensions after \<open>j\<close> increments: the width has grown by \<open>j\<close> alignment steps; the
  height is the initial one before any increment, and afterwards the aligned, rounded
  quotient of the current width by the aspect ratio.
\<close>

definition spec_area_width :: "int \<Rightarrow> int \<Rightarrow> nat \<Rightarrow> int" where
  "spec_area_width alignment W0 j = W0 + int j * alignment"

definition spec_area_height :: "int \<Rightarrow> real \<Rightarrow> int \<Rightarrow> int \<Rightarrow> nat \<Rightarrow> int" where
  "spec_area_height alignment aspect_ratio W0 H0 j =
     (if j = 0 then H0
      else spec_nearest_multiple alignment
             (of_int (py_round (of_int (spec_area_width alignment W0 j) / aspect_ratio))))"

section \<open>Rounding lemmas\<close>

lemma py_round_lower: "x - 1 / 2 \<le> of_int (py_round x)"
  unfolding py_round_def Let_def by (simp; linarith)

lemma py_round_upper: "of_int (py_round x) \<le> x + 1 / 2"
  unfolding py_round_def Let_def by (simp; linarith)

lemma py_round_of_int [simp]: "py_round (of_int k) = k"
  by (simp add: py_round_def)

lemma round_to_nearest_multiple_pos:
  assumes "0 < aspect_bucket_alignment cfg"
  shows "\<exists>r. round_to_nearest_multiple cfg v = Inr r
           \<and> aspect_bucket_alignment cfg dvd r
           \<and> aspect_bucket_alignment cfg \<le> r
           \<and> v - of_int (aspect_bucket_alignment cfg) / 2 \<le> of_int r"
proof -
  let ?m = "aspect_bucket_alignment cfg"
  let ?k = "py_round (v / of_int ?m)"
  have mpos: "(0::real) < of_int ?m" using assms by simp
  have "v / of_int ?m - 1 / 2 \<le> of_int ?k" by (rule py_round_lower)
  then have "(v / of_int ?m - 1 / 2) * of_int ?m \<le> of_int ?k * of_int ?m"
    using mpos by (simp add: mult_right_mono)
  moreover have "(v / of_int ?m - 1 / 2) * of_int ?m = v - of_int ?m / 2"
    using mpos by (simp add: field_simps)
  ultimately have low: "v - of_int ?m / 2 \<le> of_int (?k * ?m)" by simp
  have "(of_int (?k * ?m) :: real) \<le> of_int (max (?k * ?m) ?m)"
    by (simp only: of_int_le_iff max.cobounded1)
  with low have "v - of_int ?m / 2 \<le> of_int (max (?k * ?m) ?m)"
    by linarith
  moreover have "?m dvd max (?k * ?m) ?m" by (simp add: max_def)
  moreover have "?m \<le> max (?k * ?m) ?m" by simp
  ultimately show ?thesis
    using assms by (simp add: round_to_nearest_multiple_def Let_def)
qed

section \<open>The pixel-edge resolver\<close>

lemma pixel_edge_loop_exit:
  "\<not> min (of_int W) (of_int H) < resolution \<Longrightarrow>
   pixel_edge_loop cfg aspect_ratio resolution W H = Some (Inr (W, H))"
  by (subst pixel_edge_loop.simps) simp

lemma pixel_edge_loop_returns:
  assumes m: "0 < aspect_bucket_alignment cfg" and a: "0 < aspect_ratio"
  shows "aspect_bucket_alignment cfg dvd W \<Longrightarrow> aspect_bucket_alignment cfg dvd H \<Longrightarrow>
         aspect_bucket_alignment cfg \<le> W \<Longrightarrow> aspect_bucket_alignment cfg \<le> H \<Longrightarrow>
         \<exists>W' H'. pixel_edge_loop cfg aspect_ratio resolution W H = Some (Inr (W', H'))
           \<and> resolution \<le> of_int W' \<and> resolution \<le> of_int H'
           \<and> aspect_bucket_alignment cfg dvd W' \<and> aspect_bucket_alignment cfg dvd H'
           \<and> aspect_bucket_alignment cfg \<le> W' \<and> aspect_bucket_alignment cfg \<le> H'"
proof (induction "nat (\<lceil>max resolution
          ((resolution + (of_int (aspect_bucket_alignment cfg) + 1) / 2) / aspect_ratio)\<rceil> - W)"
        arbitrary: W H rule: less_induct)
  case less
  let ?m = "aspect_bucket_alignment cfg"
  let ?B = "max resolution ((resolution + (of_int ?m + 1) / 2) / aspect_ratio)"
  show ?case
  proof (cases "min (of_int W) (of_int H) < resolution")
    case False
    then have "pixel_edge_loop cfg aspect_ratio resolution W H = Some (Inr (W, H))"
      by (rule pixel_edge_loop_exit)
    then show ?thesis using False less.prems by (auto simp: not_less)
  next
    case True
    let ?W = "W + ?m"
    let ?v = "of_int (py_round (of_int ?W * aspect_ratio)) :: real"
    obtain H' where H': "round_to_nearest_multiple cfg ?v = Inr H'"
      and dvdH': "?m dvd H'" and leH': "?m \<le> H'"
      and lowH': "?v - of_int ?m / 2 \<le> of_int H'"
      using round_to_nearest_multiple_pos [OF m, of ?v] by blast
    have step: "pixel_edge_loop cfg aspect_ratio resolution W H
                  = pixel_edge_loop cfg aspect_ratio resolution ?W H'"
      using True H' by (subst pixel_edge_loop.simps) simp
    have dvdW': "?m dvd ?W" using less.prems by simp
    have leW': "?m \<le> ?W" using less.prems m by linarith
    show ?thesis
    proof (cases "?B \<le> of_int ?W")
      case far: True
      have rW: "resolution \<le> of_int ?W"
        using far by (rule order_trans [OF max.cobounded1])
      have "(resolution + (of_int ?m + 1) / 2) / aspect_ratio \<le> of_int ?W"
        using far by (rule order_trans [OF max.cobounded2])
      then have "resolution + (of_int ?m + 1) / 2 \<le> of_int ?W * aspect_ratio"
        using a by (simp add: pos_divide_le_eq)
      then have "resolution + of_int ?m / 2 \<le> of_int ?W * aspect_ratio - 1 / 2"
        by (simp add: add_divide_distrib)
      also have "\<dots> \<le> ?v" by (rule py_round_lower)
      finally have "resolution \<le> ?v - of_int ?m / 2" by simp
      also note lowH'
      finally have rH: "resolution \<le> of_int H'" .
      have "\<not> min (of_int ?W) (of_int H') < resolution"
        using rW rH by (simp only: min_less_iff_disj not_less de_Morgan_disj)
      then have "pixel_edge_loop cfg aspect_ratio resolution ?W H' = Some (Inr (?W, H'))"
        by (rule pixel_edge_loop_exit)
      then show ?thesis using step rW rH dvdW' dvdH' leW' leH' by simp
    next
      case near: False
      then have "of_int ?W < ?B" by (simp only: not_le)
      then have "?W < \<lceil>?B\<rceil>" by (simp only: less_ceiling_iff)
      then have "nat (\<lceil>?B\<rceil> - ?W) < nat (\<lceil>?B\<rceil> - W)" using m by linarith
      from less.hyps [OF this dvdW' dvdH' leW' leH'] step show ?thesis by simp
    qed
  qed
qed

lemma pixel_edge_returns:
  assumes "0 < aspect_bucket_alignment cfg" and "0 < aspect_ratio"
  shows "\<exists>W H ar. calculate_new_size_by_pixel_edge cfg aspect_ratio resolution = Some (Inr (W, H, ar))
           \<and> resolution \<le> of_int W \<and> resolution \<le> of_int H
           \<and> aspect_bucket_alignment cfg dvd W \<and> aspect_bucket_alignment cfg dvd H
           \<and> 0 < W \<and> 0 < H"
proof -
  let ?m = "aspect_bucket_alignment cfg"
  obtain Wi Hi where init: "pixel_edge_initial aspect_ratio resolution = Inr (Wi, Hi)"
    using assms(2) by (cases "pixel_edge_initial aspect_ratio resolution")
      (auto simp: pixel_edge_initial_def split: if_splits)
  obtain W0 where W0: "round_to_nearest_multiple cfg Wi = Inr W0" "?m dvd W0" "?m \<le> W0"
    using round_to_nearest_multiple_pos [OF assms(1), of Wi] by blast
  obtain H0 where H0: "round_to_nearest_multiple cfg Hi = Inr H0" "?m dvd H0" "?m \<le> H0"
    using round_to_nearest_multiple_pos [OF assms(1), of Hi] by blast
  obtain W H where loop: "pixel_edge_loop cfg aspect_ratio resolution W0 H0 = Some (Inr (W, H))"
    and post: "resolution \<le> of_int W" "resolution \<le> of_int H" "?m dvd W" "?m dvd H"
      "?m \<le> W" "?m \<le> H"
    using pixel_edge_loop_returns [OF assms(1,2) W0(2) H0(2) W0(3) H0(3), of resolution] by blast
  have pos: "0 < W" "0 < H" using post(5,6) assms(1) by linarith+
  then have "H \<noteq> 0" by simp
  then have "calculate_new_size_by_pixel_edge cfg aspect_ratio resolution
        = Some (Inr (W, H, py_round_ndigits (of_int W / of_int H) (to_round cfg)))"
    using init W0(1) H0(1) loop
    by (simp add: calculate_new_size_by_pixel_edge_def with_aspect_ratio_def
        calculate_image_aspect_ratio_def)
  then show ?thesis using post pos by simp
qed

text \<open>
  Claim C1. For every aspect ratio above zero and every resolution above zero (the
  alignment constant being a positive integer), \<open>calculate_new_size_by_pixel_edge\<close>
  returns, and the width and height it returns are both at least the resolution and
  both multiples of the alignment constant.
\<close>

theorem pixel_edge_meets_resolution_aligned:
  assumes "0 < aspect_bucket_alignment cfg" and "0 < aspect_ratio" and "0 < resolution"
  shows "\<exists>W H ar. calculate_new_size_by_pixel_edge cfg aspect_ratio resolution = Some (Inr (W, H, ar))
           \<and> resolution \<le> of_int W \<and> resolution \<le> of_int H
           \<and> aspect_bucket_alignment cfg dvd W \<and> aspect_bucket_alignment cfg dvd H"
  using pixel_edge_returns [OF assms(1,2), of resolution] by blast

theorem pixel_edge_meets_resolution_aligned_witness:
  "0 < aspect_bucket_alignment \<lparr>aspect_bucket_alignment = 64, aspect_bucket_rounding = None\<rparr>
   \<and> (0::real) < 2 \<and> (0::real) < 800
   \<and> (\<exists>W H ar.
         calculate_new_size_by_pixel_edge
           \<lparr>aspect_bucket_alignment = 64, aspect_bucket_rounding = None\<rparr> 2 800
           = Some (Inr (W, H, ar))
         \<and> 800 \<le> real_of_int W \<and> 800 \<le> real_of_int H \<and> 64 dvd W \<and> 64 dvd H)"
  using pixel_edge_meets_resolution_aligned
          [of "\<lparr>aspect_bucket_alignment = 64, aspect_bucket_rounding = None\<rparr>" 2 800]
  by simp

section \<open>The pixel-area resolver\<close>

lemma pixel_area_loop_exit:
  "\<not> of_int (W * H) < total_pixels \<Longrightarrow>
   pixel_area_loop cfg aspect_ratio total_pixels W H = Some (Inr (W, H))"
  by (subst pixel_area_loop.simps) simp

lemma pixel_area_loop_returns:
  assumes m: "0 < aspect_bucket_alignment cfg" and a: "aspect_ratio \<noteq> 0"
  shows "aspect_bucket_alignment cfg dvd W \<Longrightarrow> aspect_bucket_alignment cfg dvd H \<Longrightarrow>
         aspect_bucket_alignment cfg \<le> W \<Longrightarrow> aspect_bucket_alignment cfg \<le> H \<Longrightarrow>
         \<exists>W' H'. pixel_area_loop cfg aspect_ratio total_pixels W H = Some (Inr (W', H'))
           \<and> total_pixels \<le> of_int (W' * H')
           \<and> aspect_bucket_alignment cfg dvd W' \<and> aspect_bucket_alignment cfg dvd H'
           \<and> aspect_bucket_alignment cfg \<le> W' \<and> aspect_bucket_alignment cfg \<le> H'"
proof (induction "nat (\<lceil>total_pixels\<rceil> - W)" arbitrary: W H rule: less_induct)
  case less
  let ?m = "aspect_bucket_alignment cfg"
  show ?case
  proof (cases "of_int (W * H) < total_pixels")
    case False
    then have "pixel_area_loop cfg aspect_ratio total_pixels W H = Some (Inr (W, H))"
      by (rule pixel_area_loop_exit)
    then show ?thesis using False less.prems by (simp add: not_less)
  next
    case True
    let ?W = "W + ?m"
    let ?v = "of_int (py_round (of_int ?W / aspect_ratio)) :: real"
    obtain H' where H': "round_to_nearest_multiple cfg ?v = Inr H'"
      and dvdH': "?m dvd H'" and leH': "?m \<le> H'"
      using round_to_nearest_multiple_pos [OF m, of ?v] by blast
    have step: "pixel_area_loop cfg aspect_ratio total_pixels W H
                  = pixel_area_loop cfg aspect_ratio total_pixels ?W H'"
      using True H' a by (subst pixel_area_loop.simps) simp
    have "0 \<le> W" "1 \<le> H" using less.prems m by linarith+
    then have "W * 1 \<le> W * H" by (rule mult_left_mono [rotated])
    then have "(of_int W :: real) \<le> of_int (W * H)" by (simp only: of_int_le_iff mult_1_right)
    with True have "of_int W < total_pixels" by linarith
    then have "W < \<lceil>total_pixels\<rceil>" by (simp only: less_ceiling_iff)
    then have "nat (\<lceil>total_pixels\<rceil> - ?W) < nat (\<lceil>total_pixels\<rceil> - W)" using m by linarith
    moreover have "?m dvd ?W" using less.prems by simp
    moreover have "?m \<le> ?W" using less.prems m by linarith
    ultimately show ?thesis using less.hyps [of ?W H'] dvdH' leH' step by simp
  qed
qed

lemma pixel_area_general_returns:
  assumes "0 < aspect_bucket_alignment cfg" and "0 < aspect_ratio"
    and "\<not> (aspect_ratio = 1 \<and> (megapixels = 1 \<or> megapixels = 0.75 \<or> megapixels = 0.5))"
  shows "\<exists>W H ar. calculate_new_size_by_pixel_area cfg aspect_ratio megapixels = Some (Inr (W, H, ar))
           \<and> aspect_bucket_alignment cfg dvd W \<and> aspect_bucket_alignment cfg dvd H
           \<and> max (megapixels * 1000000) 1000000 \<le> of_int (W * H)
           \<and> 0 < W \<and> 0 < H"
proof -
  let ?m = "aspect_bucket_alignment cfg"
  let ?total = "max (megapixels * 1000000) 1000000 :: real"
  have tpos: "0 < ?total" by simp
  have nn1: "\<not> ?total * aspect_ratio < 0"
    using tpos assms(2) by (simp only: not_less mult_nonneg_nonneg less_imp_le)
  have nn2: "\<not> ?total / aspect_ratio < 0"
    using tpos assms(2) by (simp only: not_less divide_nonneg_nonneg less_imp_le)
  have a0: "aspect_ratio \<noteq> 0" using assms(2) by simp
  let ?Wi = "of_int (py_round (sqrt (?total * aspect_ratio))) :: real"
  let ?Hi = "of_int (py_round (sqrt (?total / aspect_ratio))) :: real"
  obtain W0 where W0: "round_to_nearest_multiple cfg ?Wi = Inr W0" "?m dvd W0" "?m \<le> W0"
    using round_to_nearest_multiple_pos [OF assms(1), of ?Wi] by blast
  obtain H0 where H0: "round_to_nearest_multiple cfg ?Hi = Inr H0" "?m dvd H0" "?m \<le> H0"
    using round_to_nearest_multiple_pos [OF assms(1), of ?Hi] by blast
  obtain W H where loop: "pixel_area_loop cfg aspect_ratio ?total W0 H0 = Some (Inr (W, H))"
    and post: "?total \<le> of_int (W * H)" "?m dvd W" "?m dvd H" "?m \<le> W" "?m \<le> H"
    using pixel_area_loop_returns [OF assms(1) a0 W0(2) H0(2) W0(3) H0(3), of ?total] by blast
  have pos: "0 < W" "0 < H" using post(4,5) assms(1) by linarith+
  then have "H \<noteq> 0" by simp
  then have "with_aspect_ratio cfg (pixel_area_loop cfg aspect_ratio ?total W0 H0)
        = Some (Inr (W, H, py_round_ndigits (of_int W / of_int H) (to_round cfg)))"
    using loop by (simp add: with_aspect_ratio_def calculate_image_aspect_ratio_def)
  then have "calculate_new_size_by_pixel_area cfg aspect_ratio megapixels
        = Some (Inr (W, H, py_round_ndigits (of_int W / of_int H) (to_round cfg)))"
    using assms(3) nn1 nn2 a0 W0(1) H0(1)
    unfolding calculate_new_size_by_pixel_area_def Let_def by auto
  then show ?thesis using post pos by blast
qed

lemma pixel_area_returns:
  assumes "0 < aspect_bucket_alignment cfg" and "0 < aspect_ratio"
  shows "\<exists>W H ar. calculate_new_size_by_pixel_area cfg aspect_ratio megapixels = Some (Inr (W, H, ar))
           \<and> 0 < W \<and> 0 < H"
proof (cases "aspect_ratio = 1 \<and> (megapixels = 1 \<or> megapixels = 0.75 \<or> megapixels = 0.5)")
  case True
  then show ?thesis by (auto simp: calculate_new_size_by_pixel_area_def)
next
  case False
  from pixel_area_general_returns [OF assms False] show ?thesis by blast
qed

text \<open>
  The loop against the algorithm in the specification's words: it stops after some
  number \<open>k\<close> of increments at the width and height of step \<open>k\<close>, the pixel budget was
  not met at any earlier step, and it is met at step \<open>k\<close>.
\<close>

lemma round_to_nearest_multiple_spec:
  "aspect_bucket_alignment cfg \<noteq> 0 \<Longrightarrow>
   round_to_nearest_multiple cfg v = Inr (spec_nearest_multiple (aspect_bucket_alignment cfg) v)"
  by (simp add: round_to_nearest_multiple_def spec_nearest_multiple_def Let_def)

lemma spec_nearest_multiple_ge: "alignment \<le> spec_nearest_multiple alignment v"
  by (simp add: spec_nearest_multiple_def)

lemma spec_nearest_multiple_dvd: "alignment dvd spec_nearest_multiple alignment v"
  by (simp add: spec_nearest_multiple_def max_def)

lemma spec_area_width_shift:
  "spec_area_width m (W + m) j = spec_area_width m W (Suc j)"
  by (simp add: spec_area_width_def algebra_simps)

lemma spec_area_height_shift:
  assumes "H' = spec_nearest_multiple m (of_int (py_round (of_int (W + m) / a)))"
  shows "spec_area_height m a (W + m) H' j = spec_area_height m a W H (Suc j)"
proof (cases j)
  case 0
  then show ?thesis using assms by (simp add: spec_area_height_def spec_area_width_def)
next
  case (Suc i)
  then show ?thesis
    by (simp only: spec_area_height_def spec_area_width_shift) simp
qed

lemma pixel_area_loop_trace:
  assumes m: "0 < aspect_bucket_alignment cfg" and a: "aspect_ratio \<noteq> 0"
  shows "aspect_bucket_alignment cfg \<le> W \<Longrightarrow> aspect_bucket_alignment cfg \<le> H \<Longrightarrow>
         \<exists>k. pixel_area_loop cfg aspect_ratio total_pixels W H
               = Some (Inr (spec_area_width (aspect_bucket_alignment cfg) W k,
                            spec_area_height (aspect_bucket_alignment cfg) aspect_ratio W H k))
           \<and> (\<forall>j<k. of_int (spec_area_width (aspect_bucket_alignment cfg) W j
                              * spec_area_height (aspect_bucket_alignment cfg) aspect_ratio W H j)
                      < total_pixels)
           \<and> total_pixels
               \<le> of_int (spec_area_width (aspect_bucket_alignment cfg) W k
                          * spec_area_height (aspect_bucket_alignment cfg) aspect_ratio W H k)"
proof (induction "nat (\<lceil>total_pixels\<rceil> - W)" arbitrary: W H rule: less_induct)
  case less
  let ?m = "aspect_bucket_alignment cfg"
  show ?case
  proof (cases "of_int (W * H) < total_pixels")
    case False
    then have "pixel_area_loop cfg aspect_ratio total_pixels W H = Some (Inr (W, H))"
      by (rule pixel_area_loop_exit)
    with False show ?thesis
      by (intro exI [of _ 0]) (simp add: spec_area_width_def spec_area_height_def not_less)
  next
    case True
    let ?W = "W + ?m"
    let ?H = "spec_nearest_multiple ?m (of_int (py_round (of_int ?W / aspect_ratio)))"
    have H': "round_to_nearest_multiple cfg (of_int (py_round (of_int ?W / aspect_ratio)))
                = Inr ?H"
      using m by (simp add: round_to_nearest_multiple_spec)
    have step: "pixel_area_loop cfg aspect_ratio total_pixels W H
                  = pixel_area_loop cfg aspect_ratio total_pixels ?W ?H"
      using True H' a by (subst pixel_area_loop.simps) simp
    have "0 \<le> W" "1 \<le> H" using less.prems m by linarith+
    then have "W * 1 \<le> W * H" by (rule mult_left_mono [rotated])
    then have "(of_int W :: real) \<le> of_int (W * H)" by (simp only: of_int_le_iff mult_1_right)
    with True have "of_int W < total_pixels" by linarith
    then have "W < \<lceil>total_pixels\<rceil>" by (simp only: less_ceiling_iff)
    then have dec: "nat (\<lceil>total_pixels\<rceil> - ?W) < nat (\<lceil>total_pixels\<rceil> - W)" using m by linarith
    have leW: "?m \<le> ?W" using less.prems m by linarith
    have leH: "?m \<le> ?H" by (rule spec_nearest_multiple_ge)
    from less.hyps [OF dec leW leH] obtain k where
      res: "pixel_area_loop cfg aspect_ratio total_pixels ?W ?H
              = Some (Inr (spec_area_width ?m ?W k, spec_area_height ?m aspect_ratio ?W ?H k))"
      and below: "\<forall>j<k. of_int (spec_area_width ?m ?W j * spec_area_height ?m aspect_ratio ?W ?H j)
                        < total_pixels"
      and final: "total_pixels
                    \<le> of_int (spec_area_width ?m ?W k * spec_area_height ?m aspect_ratio ?W ?H k)"
      by blast
    have hs: "spec_area_height ?m aspect_ratio ?W ?H j = spec_area_height ?m aspect_ratio W H (Suc j)"
      for j by (rule spec_area_height_shift) (rule refl)
    have "pixel_area_loop cfg aspect_ratio total_pixels W H
            = Some (Inr (spec_area_width ?m W (Suc k), spec_area_height ?m aspect_ratio W H (Suc k)))"
      using step res by (simp only: spec_area_width_shift hs)
    moreover have "\<forall>j<Suc k. of_int (spec_area_width ?m W j * spec_area_height ?m aspect_ratio W H j)
                        < total_pixels"
    proof (intro allI impI)
      fix j assume "j < Suc k"
      show "of_int (spec_area_width ?m W j * spec_area_height ?m aspect_ratio W H j) < total_pixels"
      proof (cases j)
        case 0
        with True show ?thesis by (simp add: spec_area_width_def spec_area_height_def)
      next
        case (Suc i)
        with \<open>j < Suc k\<close> have "i < k" by simp
        with below have "of_int (spec_area_width ?m ?W i * spec_area_height ?m aspect_ratio ?W ?H i)
                           < total_pixels" by blast
        then show ?thesis unfolding Suc by (simp only: spec_area_width_shift hs)
      qed
    qed
    moreover have "total_pixels
        \<le> of_int (spec_area_width ?m W (Suc k) * spec_area_height ?m aspect_ratio W H (Suc k))"
      using final by (simp only: spec_area_width_shift hs)
    ultimately show ?thesis by blast
  qed
qed


lemma py_round_unique:
  assumes "of_int n - 1 / 2 < y" and "y < of_int n + 1 / 2"
  shows "py_round y = n"
proof -
  have "of_int n - 1 < (of_int (py_round y) :: real)"
    using py_round_lower [of y] assms(1) by linarith
  then have "n - 1 < py_round y" by linarith
  moreover have "(of_int (py_round y) :: real) < of_int n + 1"
    using py_round_upper [of y] assms(2) by linarith
  then have "py_round y < n + 1" by linarith
  ultimately show ?thesis by linarith
qed

lemma py_round_sqrt:
  assumes "(0::real) \<le> of_int n - 1 / 2"
    and "(of_int n - 1 / 2)\<^sup>2 < x" and "x < (of_int n + 1 / 2)\<^sup>2"
  shows "py_round (sqrt x) = n"
proof (rule py_round_unique)
  show "of_int n - 1 / 2 < sqrt x"
    using assms(2) by (rule real_less_rsqrt)
  have "0 \<le> (of_int n + 1 / 2 :: real)" using assms(1) by linarith
  then show "sqrt x < of_int n + 1 / 2"
    using assms(3) by (intro real_less_lsqrt) simp_all
qed

lemma spec_area_start_example: "spec_area_start 64 2 1000000 = (1408, 704)"
proof -
  have "py_round (sqrt (1000000 * 2)) = 1414"
    by (rule py_round_sqrt) (simp_all add: power2_eq_square)
  moreover have "py_round (sqrt (1000000 / 2)) = 707"
    by (rule py_round_sqrt) (simp_all add: power2_eq_square)
  ultimately show ?thesis
    by (simp add: spec_area_start_def spec_nearest_multiple_def py_round_def)
qed

text \<open>
  Claim C6. For every aspect ratio above zero and every megapixel value outside the
  three square special cases (the alignment constant being a positive integer),
  \<open>calculate_new_size_by_pixel_area\<close> returns, and what it returns is obtained as
  follows: the rounded square roots of \<open>total_pixels * aspect_ratio\<close> and
  \<open>total_pixels / aspect_ratio\<close>, with \<open>total_pixels = max(megapixels * 1e6, 1e6)\<close>, are
  rounded to multiples of the alignment constant; the width is then incremented by one
  alignment step, and the height derived again from it, as long as the product is below
  \<open>total_pixels\<close>. The result is the first step at which the product is at least
  \<open>total_pixels\<close>; its width and height are both multiples of the alignment constant.
\<close>

theorem pixel_area_meets_budget_aligned:
  fixes cfg :: args and aspect_ratio megapixels :: real
  defines "m \<equiv> aspect_bucket_alignment cfg"
    and "budget \<equiv> max (megapixels * 1000000) 1000000"
  defines "W0 \<equiv> fst (spec_area_start m aspect_ratio budget)"
    and "H0 \<equiv> snd (spec_area_start m aspect_ratio budget)"
  assumes "0 < aspect_bucket_alignment cfg" and "0 < aspect_ratio"
    and "\<not> (aspect_ratio = 1 \<and> (megapixels = 1 \<or> megapixels = 0.75 \<or> megapixels = 0.5))"
  shows "\<exists>k. calculate_new_size_by_pixel_area cfg aspect_ratio megapixels
               = Some (Inr (spec_area_width m W0 k, spec_area_height m aspect_ratio W0 H0 k,
                            py_round_ndigits
                              (of_int (spec_area_width m W0 k)
                                 / of_int (spec_area_height m aspect_ratio W0 H0 k))
                              (to_round cfg)))
           \<and> (\<forall>j<k. of_int (spec_area_width m W0 j * spec_area_height m aspect_ratio W0 H0 j)
                      < budget)
           \<and> budget \<le> of_int (spec_area_width m W0 k * spec_area_height m aspect_ratio W0 H0 k)
           \<and> m dvd spec_area_width m W0 k
           \<and> m dvd spec_area_height m aspect_ratio W0 H0 k"
proof -
  have mpos: "0 < m" using assms(5) by (simp add: m_def)
  have tpos: "0 < budget" by (simp add: budget_def)
  have nn1: "\<not> budget * aspect_ratio < 0"
    using tpos assms(6) by (simp only: not_less mult_nonneg_nonneg less_imp_le)
  have nn2: "\<not> budget / aspect_ratio < 0"
    using tpos assms(6) by (simp only: not_less divide_nonneg_nonneg less_imp_le)
  have a0: "aspect_ratio \<noteq> 0" using assms(6) by simp
  have W0: "round_to_nearest_multiple cfg (of_int (py_round (sqrt (budget * aspect_ratio))))
              = Inr W0"
    using mpos unfolding W0_def spec_area_start_def fst_conv m_def
    by (intro round_to_nearest_multiple_spec) simp
  have H0: "round_to_nearest_multiple cfg (of_int (py_round (sqrt (budget / aspect_ratio))))
              = Inr H0"
    using mpos unfolding H0_def spec_area_start_def snd_conv m_def
    by (intro round_to_nearest_multiple_spec) simp
  have W0ge: "m \<le> W0" and W0dvd: "m dvd W0"
    unfolding W0_def spec_area_start_def fst_conv
    by (rule spec_nearest_multiple_ge, rule spec_nearest_multiple_dvd)
  have H0ge: "m \<le> H0" and H0dvd: "m dvd H0"
    unfolding H0_def spec_area_start_def snd_conv
    by (rule spec_nearest_multiple_ge, rule spec_nearest_multiple_dvd)
  obtain k where loop: "pixel_area_loop cfg aspect_ratio budget W0 H0
        = Some (Inr (spec_area_width m W0 k, spec_area_height m aspect_ratio W0 H0 k))"
    and below: "\<forall>j<k. of_int (spec_area_width m W0 j * spec_area_height m aspect_ratio W0 H0 j)
                      < budget"
    and final: "budget \<le> of_int (spec_area_width m W0 k * spec_area_height m aspect_ratio W0 H0 k)"
    using pixel_area_loop_trace [OF assms(5) a0, of W0 H0 budget] W0ge H0ge
    unfolding m_def by blast
  have hge: "m \<le> spec_area_height m aspect_ratio W0 H0 k"
    using H0ge by (simp add: spec_area_height_def spec_nearest_multiple_ge)
  then have hne: "spec_area_height m aspect_ratio W0 H0 k \<noteq> 0" using mpos by linarith
  have hdvd: "m dvd spec_area_height m aspect_ratio W0 H0 k"
    using H0dvd by (simp add: spec_area_height_def spec_nearest_multiple_dvd)
  have wdvd: "m dvd spec_area_width m W0 k"
    using W0dvd by (simp add: spec_area_width_def)
  have "with_aspect_ratio cfg (pixel_area_loop cfg aspect_ratio budget W0 H0)
        = Some (Inr (spec_area_width m W0 k, spec_area_height m aspect_ratio W0 H0 k,
                     py_round_ndigits
                       (of_int (spec_area_width m W0 k)
                          / of_int (spec_area_height m aspect_ratio W0 H0 k))
                       (to_round cfg)))"
    using loop hne by (simp add: with_aspect_ratio_def calculate_image_aspect_ratio_def)
  then have "calculate_new_size_by_pixel_area cfg aspect_ratio megapixels
        = Some (Inr (spec_area_width m W0 k, spec_area_height m aspect_ratio W0 H0 k,
                     py_round_ndigits
                       (of_int (spec_area_width m W0 k)
                          / of_int (spec_area_height m aspect_ratio W0 H0 k))
                       (to_round cfg)))"
    using assms(7) nn1 nn2 a0 W0 H0
    unfolding calculate_new_size_by_pixel_area_def Let_def budget_def [symmetric] by auto
  then show ?thesis using below final wdvd hdvd by blast
qed

theorem pixel_area_meets_budget_aligned_witness:
  "calculate_new_size_by_pixel_area example_args 2 1 = Some (Inr (1472, 768, 1.92))
   \<and> spec_area_start 64 2 1000000 = (1408, 704)
   \<and> spec_area_width 64 1408 1 = 1472
   \<and> spec_area_height 64 2 1408 704 1 = 768"
proof -
  have w0: "spec_area_width 64 1408 0 = 1408" and w1: "spec_area_width 64 1408 1 = 1472"
    by (simp_all add: spec_area_width_def)
  have h0: "spec_area_height 64 2 1408 704 0 = 704"
    by (simp add: spec_area_height_def)
  have h1: "spec_area_height 64 2 1408 704 1 = 768"
    by (simp add: spec_area_height_def spec_area_width_def spec_nearest_multiple_def py_round_def)
  have ar: "py_round_ndigits (1472 / 768) (to_round example_args) = 1.92"
    by (simp add: py_round_ndigits_def to_round_def py_round_def)
  from pixel_area_meets_budget_aligned [of example_args 2 1]
  obtain k where res: "calculate_new_size_by_pixel_area example_args 2 1
        = Some (Inr (spec_area_width 64 1408 k, spec_area_height 64 2 1408 704 k,
                     py_round_ndigits
                       (of_int (spec_area_width 64 1408 k)
                          / of_int (spec_area_height 64 2 1408 704 k))
                       (to_round example_args)))"
    and below: "\<forall>j<k. real_of_int (spec_area_width 64 1408 j * spec_area_height 64 2 1408 704 j)
                      < 1000000"
    and final: "1000000 \<le> real_of_int (spec_area_width 64 1408 k * spec_area_height 64 2 1408 704 k)"
    by (auto simp: spec_area_start_example)
  have "k \<noteq> 0"
  proof
    assume "k = 0"
    with final show False by (simp add: w0 h0)
  qed
  moreover have "\<not> 1 < k"
  proof
    assume "1 < k"
    with below have "real_of_int (spec_area_width 64 1408 1 * spec_area_height 64 2 1408 704 1)
                       < 1000000" by blast
    then show False unfolding w1 h1 by simp
  qed
  ultimately have "k = 1" by linarith
  with res show ?thesis using w1 h1 ar spec_area_start_example by simp
qed

section \<open>The resize engine\<close>

lemma py_int_three_quarters_le:
  "py_int (of_int c * 0.75) \<le> max c 0"
proof (cases "0 \<le> c")
  case True
  then have "of_int c * 0.75 \<le> (of_int c :: real)" by simp
  then have "\<lfloor>of_int c * 0.75 :: real\<rfloor> \<le> c" by (simp only: floor_le_iff; linarith)
  with True show ?thesis by (simp add: py_int_def)
next
  case False
  then have "(of_int c * 0.75 :: real) \<le> 0" by simp
  then have "\<lceil>of_int c * 0.75 :: real\<rceil> \<le> 0" by (simp only: ceiling_le_iff of_int_0)
  with False show ?thesis by (simp add: py_int_def)
qed

lemma py_int_three_quarters_less:
  assumes "0 < c"
  shows "py_int (of_int c * 0.75) < c"
proof -
  have "(of_int c * 0.75 :: real) < of_int c" using assms by simp
  then have "\<lfloor>of_int c * 0.75 :: real\<rfloor> < c" by (simp only: floor_less_iff)
  with assms show ?thesis by (simp add: py_int_def)
qed

lemma stage_le:
  assumes "0 \<le> t"
  shows "max (py_int (of_int c * 0.75)) t \<le> max c t"
  using py_int_three_quarters_le [of c] assms by linarith

lemma stage_less:
  assumes "0 \<le> t" and "of_int t * 1.5 < real_of_int c"
  shows "max (py_int (of_int c * 0.75)) t < max c t"
proof -
  have "real_of_int t \<le> of_int t * 1.5" using assms(1) by simp
  with assms(2) have tc: "t < c" by linarith
  with assms(1) have "0 < c" by linarith
  from py_int_three_quarters_less [OF this] tc show ?thesis by linarith
qed

lemma resize_stages_exit:
  "\<not> (of_int tw * 1.5 < real_of_int cw \<or> of_int th * 1.5 < real_of_int ch) \<Longrightarrow>
   resize_stages tw th cw ch stages = Some stages"
  by (subst resize_stages.simps) simp

lemma resize_stages_step:
  "of_int tw * 1.5 < real_of_int cw \<or> of_int th * 1.5 < real_of_int ch \<Longrightarrow>
   resize_stages tw th cw ch stages
     = resize_stages tw th (max (py_int (of_int cw * 0.75)) tw) (max (py_int (of_int ch * 0.75)) th)
         (stages @ [(max (py_int (of_int cw * 0.75)) tw, max (py_int (of_int ch * 0.75)) th)])"
  by (subst resize_stages.simps) (simp add: Let_def)

lemma resize_stages_returns:
  assumes "0 \<le> tw" and "0 \<le> th"
  shows "\<exists>more. resize_stages tw th cw ch stages = Some (stages @ more)
           \<and> list_all (\<lambda>(w, h). tw \<le> w \<and> th \<le> h) more"
proof (induction "nat (max cw tw) + nat (max ch th)" arbitrary: cw ch stages rule: less_induct)
  case less
  show ?case
  proof (cases "of_int tw * 1.5 < real_of_int cw \<or> of_int th * 1.5 < real_of_int ch")
    case False
    then have "resize_stages tw th cw ch stages = Some stages"
      by (rule resize_stages_exit)
    then show ?thesis by (intro exI [of _ "[]"]) simp
  next
    case True
    let ?iw = "max (py_int (of_int cw * 0.75)) tw"
    let ?ih = "max (py_int (of_int ch * 0.75)) th"
    define a where "a = max ?iw tw"
    define b where "b = max ?ih th"
    define c where "c = max cw tw"
    define d where "d = max ch th"
    have le: "a \<le> c" "b \<le> d"
      unfolding a_def b_def c_def d_def
      using stage_le [OF assms(1), of cw] stage_le [OF assms(2), of ch] by linarith+
    have nn: "0 \<le> c" "0 \<le> d" "0 \<le> a" "0 \<le> b"
      unfolding a_def b_def c_def d_def using assms by linarith+
    have strict: "a < c \<or> b < d"
      unfolding a_def b_def c_def d_def
      using True stage_less [OF assms(1), of cw] stage_less [OF assms(2), of ch] by fastforce
    have "nat a + nat b < nat c + nat d"
    proof (rule disjE [OF strict])
      assume "a < c"
      then show ?thesis using le nn by linarith
    next
      assume "b < d"
      then show ?thesis using le nn by linarith
    qed
    then have "nat (max ?iw tw) + nat (max ?ih th) < nat (max cw tw) + nat (max ch th)"
      unfolding a_def b_def c_def d_def .
    from less.hyps [OF this, of "stages @ [(?iw, ?ih)]"]
    obtain more where more: "resize_stages tw th ?iw ?ih (stages @ [(?iw, ?ih)])
                               = Some ((stages @ [(?iw, ?ih)]) @ more)"
      and all: "list_all (\<lambda>(w, h). tw \<le> w \<and> th \<le> h) more" by blast
    have "resize_stages tw th cw ch stages = Some (stages @ ((?iw, ?ih) # more))"
      using resize_stages_step [OF True, of stages] more by simp
    moreover have "list_all (\<lambda>(w, h). tw \<le> w \<and> th \<le> h) ((?iw, ?ih) # more)"
      using all by simp
    ultimately show ?thesis by blast
  qed
qed

lemma resize_image_with_image:
  assumes "0 \<le> tw" and "0 \<le> th"
  shows "\<exists>out stages. resize_image (Some s) tw th md = Some (Inr (OutImage out, stages))
           \<and> out = (tw, th) \<and> ((tw, th) = s \<longrightarrow> stages = [])
           \<and> list_all (\<lambda>(w, h). tw \<le> w \<and> th \<le> h) stages"
proof (cases "(tw, th) = s")
  case True
  then show ?thesis by (auto simp: resize_image_def)
next
  case False
  obtain more where "resize_stages tw th (fst s) (snd s) [] = Some ([] @ more)"
    and "list_all (\<lambda>(w, h). tw \<le> w \<and> th \<le> h) more"
    using resize_stages_returns [OF assms, of "fst s" "snd s" "[]"] by blast
  with False show ?thesis by (auto simp: resize_image_def)
qed

text \<open>
  Claim C9. For every current size and target size \<open>_resize_image\<close> should return an
  output whose recorded size is the target. With size metadata only and a current size
  that differs from the target it does not return: building the debug message reads
  \<open>input_image.size\<close> on \<open>None\<close>. Here the metadata records 1024 x 1024 and the target is
  512 x 512.
\<close>

theorem resize_image_metadata_only_raises:
  "resize_image None 512 512 (Some (1024, 1024)) = Some (Inl AttributeError)"
  by (simp add: resize_image_def)

text \<open>
  With a pixel image the contract holds for all non-negative targets: the function
  returns an image of exactly the target size, no stage is computed when the size is
  already the target, and no intermediate size falls below the target.
\<close>

theorem resize_image_pixel_mode:
  assumes "0 \<le> tw" and "0 \<le> th"
  shows "\<exists>stages. resize_image (Some s) tw th md = Some (Inr (OutImage (tw, th), stages))
           \<and> ((tw, th) = s \<longrightarrow> stages = [])
           \<and> list_all (\<lambda>(w, h). tw \<le> w \<and> th \<le> h) stages"
  using resize_image_with_image [OF assms, of s md] by auto

theorem resize_image_pixel_mode_witness:
  "(0::int) \<le> 512
   \<and> (\<exists>stages. resize_image (Some (1024, 1024)) 512 512 None
                   = Some (Inr (OutImage (512, 512), stages))
         \<and> list_all (\<lambda>(w, h). 512 \<le> w \<and> 512 \<le> h) stages)"
  using resize_image_pixel_mode [of 512 512 "(1024, 1024)" None] by simp

section \<open>Image preparation needs an image or metadata\<close>

lemma round_to_nearest_multiple_error:
  "round_to_nearest_multiple cfg v = Inl e \<Longrightarrow> e = ZeroDivisionError"
  by (simp add: round_to_nearest_multiple_def Let_def split: if_splits)

lemma pixel_edge_loop_error:
  assumes "pixel_edge_loop cfg a r W H = Some y"
  shows "y \<noteq> Inl UnboundLocalError"
  by (rule pixel_edge_loop.raw_induct
        [where P = "\<lambda>cfg a r W H y. y \<noteq> Inl UnboundLocalError", OF _ assms])
     (auto split: if_splits sum.splits dest: round_to_nearest_multiple_error)

lemma pixel_area_loop_error:
  assumes "pixel_area_loop cfg a t W H = Some y"
  shows "y \<noteq> Inl UnboundLocalError"
  by (rule pixel_area_loop.raw_induct
        [where P = "\<lambda>cfg a t W H y. y \<noteq> Inl UnboundLocalError", OF _ assms])
     (auto split: if_splits sum.splits dest: round_to_nearest_multiple_error)

lemma with_aspect_ratio_error:
  assumes "\<And>y. r = Some y \<Longrightarrow> y \<noteq> Inl UnboundLocalError"
  shows "with_aspect_ratio cfg r \<noteq> Some (Inl UnboundLocalError)"
  using assms
  by (auto simp: with_aspect_ratio_def calculate_image_aspect_ratio_def
      split: option.splits sum.splits if_splits)

lemma pixel_edge_error:
  "calculate_new_size_by_pixel_edge cfg a r \<noteq> Some (Inl UnboundLocalError)"
proof -
  have "with_aspect_ratio cfg (pixel_edge_loop cfg a r W H) \<noteq> Some (Inl UnboundLocalError)"
    for W H by (rule with_aspect_ratio_error) (rule pixel_edge_loop_error)
  then show ?thesis
    by (auto simp: calculate_new_size_by_pixel_edge_def pixel_edge_initial_def
        split: sum.splits if_splits prod.splits dest: round_to_nearest_multiple_error)
qed

lemma pixel_area_error:
  "calculate_new_size_by_pixel_area cfg a mp \<noteq> Some (Inl UnboundLocalError)"
proof -
  have "with_aspect_ratio cfg (pixel_area_loop cfg a t W H) \<noteq> Some (Inl UnboundLocalError)"
    for t W H by (rule with_aspect_ratio_error) (rule pixel_area_loop_error)
  then show ?thesis
    by (auto simp: calculate_new_size_by_pixel_area_def Let_def
        split: sum.splits if_splits dest: round_to_nearest_multiple_error)
qed

lemma calculate_new_size_error:
  "calculate_new_size cfg rt a r \<noteq> Some (Inl UnboundLocalError)"
  by (simp add: calculate_new_size_def pixel_edge_error pixel_area_error)

lemma recalculate_target_error:
  "recalculate_target cfg rt a r cur \<noteq> Some (Inl UnboundLocalError)"
  by (simp add: recalculate_target_def pixel_edge_error pixel_area_error)

lemma resize_image_with_image_error:
  "resize_image (Some s) tw th md \<noteq> Some (Inl UnboundLocalError)"
  by (simp add: resize_image_def split: option.splits)

lemma bind_result_InlE:
  assumes "bind_result r f = Some (Inl e)"
  obtains "r = Some (Inl e)" | x where "r = Some (Inr x)" and "f x = Some (Inl e)"
  using assms by (auto simp: bind_result_def split: option.splits sum.splits)

lemma bind_result_error:
  assumes "r \<noteq> Some (Inl UnboundLocalError)"
    and "\<And>x. f x \<noteq> Some (Inl UnboundLocalError)"
  shows "bind_result r f \<noteq> Some (Inl UnboundLocalError)"
  using assms by (auto elim!: bind_result_InlE)

lemma crop_branch_error:
  "crop_branch cfg bcfg crop_fn rt img md a r dbc target \<noteq> Some (Inl UnboundLocalError)"
proof
  assume "crop_branch cfg bcfg crop_fn rt img md a r dbc target = Some (Inl UnboundLocalError)"
  then show False
    unfolding crop_branch_def
    by (auto split: option.splits prod.splits if_splits elim!: bind_result_InlE
        simp: Let_def resize_image_with_image_error recalculate_target_error)
qed

lemma no_crop_branch_error:
  "no_crop_branch img target \<noteq> Some (Inl UnboundLocalError)"
proof
  assume "no_crop_branch img target = Some (Inl UnboundLocalError)"
  then show False
    unfolding no_crop_branch_def
    by (auto split: option.splits prod.splits elim!: bind_result_InlE
        simp: resize_image_with_image_error)
qed

lemma downsample_decision_error:
  "downsample_decision bcfg sz r rt \<noteq> Inl UnboundLocalError"
  by (auto simp: downsample_decision_def is_image_too_large_def split: sum.splits if_splits)

lemma prepare_image_with_size_error:
  assumes "derive_image_size img md = Some sz"
  shows "prepare_image cfg bcfg crop_fn resolution img md rt \<noteq> Some (Inl UnboundLocalError)"
proof
  assume "prepare_image cfg bcfg crop_fn resolution img md rt = Some (Inl UnboundLocalError)"
  then show False
    unfolding prepare_image_def using assms
    by (auto elim!: bind_result_InlE
        simp: crop_branch_error no_crop_branch_error downsample_decision_error
          calculate_new_size_error calculate_image_aspect_ratio_def
        dest: round_to_nearest_multiple_error split: if_splits prod.splits)
qed

text \<open>
  Claim C10. With neither an image nor metadata \<open>prepare_image\<close> fails on the local
  variable \<open>image_size\<close>, which was never assigned; with at least one of the two
  present the size is assigned and that failure cannot occur.
\<close>

theorem prepare_image_needs_an_input:
  "prepare_image cfg bcfg crop_fn resolution None None resolution_type
     = Some (Inl UnboundLocalError)
   \<and> (img \<noteq> None \<or> image_metadata \<noteq> None \<longrightarrow>
        prepare_image cfg bcfg crop_fn resolution img image_metadata resolution_type
          \<noteq> Some (Inl UnboundLocalError))"
proof (intro conjI impI)
  show "prepare_image cfg bcfg crop_fn resolution None None resolution_type
          = Some (Inl UnboundLocalError)"
    by (simp add: prepare_image_def derive_image_size_def)
next
  assume "img \<noteq> None \<or> image_metadata \<noteq> None"
  then obtain sz where "derive_image_size img image_metadata = Some sz"
    by (cases img) (auto simp: derive_image_size_def)
  then show "prepare_image cfg bcfg crop_fn resolution img image_metadata resolution_type
               \<noteq> Some (Inl UnboundLocalError)"
    by (rule prepare_image_with_size_error)
qed

theorem prepare_image_needs_an_input_witness:
  "prepare_image \<lparr>aspect_bucket_alignment = 64, aspect_bucket_rounding = None\<rparr>
     \<lparr>crop = False, maximum_image_size = None, target_downsample_size = None,
      crop_style = ''random'', crop_aspect = ''square''\<rparr>
     (\<lambda>handler im md w h. ((w, h), (0, 0))) 1024 None None ''pixel''
     = Some (Inl UnboundLocalError)
   \<and> prepare_image \<lparr>aspect_bucket_alignment = 64, aspect_bucket_rounding = None\<rparr>
     \<lparr>crop = False, maximum_image_size = None, target_downsample_size = None,
      crop_style = ''random'', crop_aspect = ''square''\<rparr>
     (\<lambda>handler im md w h. ((w, h), (0, 0))) 1024 None (Some (4000, 2000)) ''pixel''
     \<noteq> Some (Inl UnboundLocalError)"
  using prepare_image_needs_an_input
          [of "\<lparr>aspect_bucket_alignment = 64, aspect_bucket_rounding = None\<rparr>"
              "\<lparr>crop = False, maximum_image_size = None, target_downsample_size = None,
                crop_style = ''random'', crop_aspect = ''square''\<rparr>"
              "\<lambda>handler im md w h. ((w, h), (0, 0))" 1024 "''pixel''"
              None "Some (4000, 2000)"]
  by simp

section \<open>Downsample before crop\<close>

lemma round_to_nearest_multiple_fixed:
  assumes "0 < aspect_bucket_alignment cfg" and "1 \<le> k"
  shows "round_to_nearest_multiple cfg (of_int (k * aspect_bucket_alignment cfg))
           = Inr (k * aspect_bucket_alignment cfg)"
proof -
  let ?m = "aspect_bucket_alignment cfg"
  have "(of_int (k * ?m) :: real) / of_int ?m = of_int k" using assms(1) by simp
  then have "py_round (of_int (k * ?m) / of_int ?m) = k" by (simp only: py_round_of_int)
  moreover have "?m \<le> k * ?m" using assms by (simp add: mult_le_cancel_right1)
  ultimately show ?thesis using assms(1)
    by (simp add: round_to_nearest_multiple_def Let_def max_def)
qed

lemma calculate_new_size_returns:
  assumes "0 < aspect_bucket_alignment cfg" and "0 < a"
    and "resolution_type = ''pixel'' \<or> resolution_type = ''area''"
  shows "\<exists>W H ar. calculate_new_size cfg resolution_type a r = Some (Inr (W, H, ar))
           \<and> 0 < W \<and> 0 < H"
proof (cases "resolution_type = ''pixel''")
  case True
  with pixel_edge_returns [OF assms(1,2), of r] show ?thesis
    by (auto simp: calculate_new_size_def)
next
  case False
  with assms(3) have "resolution_type = ''area''" by simp
  with pixel_area_returns [OF assms(1,2), of r] show ?thesis
    by (auto simp: calculate_new_size_def)
qed

lemma recalculate_target_eq:
  assumes "resolution_type = ''pixel'' \<or> resolution_type = ''area''"
    and "(if resolution_type = ''area'' then resolution * 1000 else resolution) = of_int R"
  shows "recalculate_target cfg resolution_type a R cur
           = calculate_new_size cfg resolution_type a resolution"
proof (cases "resolution_type = ''area''")
  case True
  with assms(2) have "of_int R / 1000 = resolution" by simp
  with True show ?thesis by (simp add: recalculate_target_def calculate_new_size_def)
next
  case False
  with assms have "resolution_type = ''pixel''" "of_int R = resolution" by simp_all
  then show ?thesis by (simp add: recalculate_target_def calculate_new_size_def)
qed

subsection \<open>Concrete runs\<close>

lemma pixel_edge_example_1024:
  "calculate_new_size_by_pixel_edge example_args 2 1024 = Some (Inr (2048, 1024, 2))"
  by (simp add: calculate_new_size_by_pixel_edge_def pixel_edge_initial_def
      round_to_nearest_multiple_def py_round_def pixel_edge_loop.simps with_aspect_ratio_def
      calculate_image_aspect_ratio_def to_round_def py_round_ndigits_def)

lemma pixel_edge_example_768:
  "calculate_new_size_by_pixel_edge example_args 2 768 = Some (Inr (1536, 768, 2))"
  by (simp add: calculate_new_size_by_pixel_edge_def pixel_edge_initial_def
      round_to_nearest_multiple_def py_round_def pixel_edge_loop.simps with_aspect_ratio_def
      calculate_image_aspect_ratio_def to_round_def py_round_ndigits_def)

lemma pixel_edge_example_800:
  "calculate_new_size_by_pixel_edge example_args 2 800 = Some (Inr (1664, 3328, 1 / 2))"
  by (simp add: calculate_new_size_by_pixel_edge_def pixel_edge_initial_def
      round_to_nearest_multiple_def py_round_def pixel_edge_loop.simps with_aspect_ratio_def
      calculate_image_aspect_ratio_def to_round_def py_round_ndigits_def)

lemma resize_example:
  "resize_image (Some (4000, 2000)) 2048 1024 None
     = Some (Inr (OutImage (2048, 1024), [(3000, 1500)]))"
  by (simp add: resize_image_def resize_stages.simps py_int_def)

lemma prepare_image_example_800:
  "prepare_image example_args example_backend example_crop_fn 800 (Some (4000, 2000)) None
     ''pixel''
   = Some (Inr \<lparr>final_image = Some (768, 768), target_width = 1536, target_height = 768,
                 new_aspect_ratio = 2, crop_coordinates = (0, 0)\<rparr>)"
proof -
  have "round_to_nearest_multiple example_args 800 = Inr 768"
    by (simp add: round_to_nearest_multiple_def py_round_def)
  moreover have "downsample_decision example_backend (4000, 2000) 800 ''pixel'' = Inr (1024, True)"
    by (simp add: downsample_decision_def truthy_def is_image_too_large_def)
  moreover have "calculate_image_aspect_ratio example_args (4000, 2000) = Inr 2"
    by (simp add: calculate_image_aspect_ratio_def to_round_def py_round_ndigits_def py_round_def)
  moreover have "crop_branch example_args example_backend example_crop_fn ''pixel''
                   (Some (4000, 2000)) None 2 768 True (2048, 1024, 2)
      = Some (Inr \<lparr>final_image = Some (768, 768), target_width = 1536, target_height = 768,
                 new_aspect_ratio = 2, crop_coordinates = (0, 0)\<rparr>)"
    by (simp add: crop_branch_def crop_handlers_def bind_result_def resize_example
        recalculate_target_def pixel_edge_example_768)
  ultimately show ?thesis
    by (simp add: prepare_image_def derive_image_size_def bind_result_def
        calculate_new_size_def pixel_edge_example_1024)
qed

text \<open>
  Claim C2. When the downsample-before-crop branch of \<open>prepare_image\<close> triggers, the final
  \<open>(target_width, target_height)\<close> should be the size the resolver yields directly from
  the caller's resolution and the original aspect ratio. The recomputation takes
  \<open>original_resolution\<close> instead, the resolution after rounding to the alignment. A
  4000 x 2000 source, maximum size 2048, downsample size 1024, alignment 64 and
  resolution 800 in pixel mode end with the target 1536 x 768, while the resolver gives
  1664 x 3328 for resolution 800 directly.
\<close>

theorem downsample_target_differs_unaligned_resolution:
  "calculate_image_aspect_ratio example_args (4000, 2000) = Inr 2
   \<and> prepared_target
        (prepare_image example_args example_backend example_crop_fn 800 (Some (4000, 2000))
           None ''pixel'') = Some (1536, 768)
   \<and> resolver_size (calculate_new_size example_args ''pixel'' 2 800) = Some (1664, 3328)"
  by (simp add: prepare_image_example_800 prepared_target_def resolver_size_def
      calculate_new_size_def pixel_edge_example_800
      calculate_image_aspect_ratio_def to_round_def py_round_ndigits_def py_round_def)

text \<open>
  The same in area mode at one megapixel: \<open>original_resolution\<close> is 1024, and dividing
  it by 1000 gives 1.024 megapixels, not 1.0. A 3400 x 5000 source with a maximum of 4
  and a downsample size of 2 megapixels ends with the target 896 x 1344, while the
  resolver gives 832 x 1216 for one megapixel directly.
\<close>

lemma area_start_examples:
  "py_round (sqrt (max (2 * 1000000) 1000000 * 0.68)) = 1166"
  "py_round (sqrt (max (2 * 1000000) 1000000 / 0.68)) = 1715"
  "py_round (sqrt (max (1.024 * 1000000) 1000000 * 0.68)) = 834"
  "py_round (sqrt (max (1.024 * 1000000) 1000000 / 0.68)) = 1227"
  "py_round (sqrt (max (1 * 1000000) 1000000 * 0.68)) = 825"
  "py_round (sqrt (max (1 * 1000000) 1000000 / 0.68)) = 1213"
  by (rule py_round_sqrt, simp, simp add: power2_eq_square, simp add: power2_eq_square)+

lemma pixel_area_example_2:
  "calculate_new_size_by_pixel_area example_args 0.68 2 = Some (Inr (1216, 1792, 0.68))"
  unfolding calculate_new_size_by_pixel_area_def Let_def area_start_examples
  by (simp add: round_to_nearest_multiple_def py_round_def pixel_area_loop.simps
      with_aspect_ratio_def calculate_image_aspect_ratio_def to_round_def py_round_ndigits_def)


lemma pixel_area_example_1024:
  "calculate_new_size_by_pixel_area example_args 0.68 1.024 = Some (Inr (896, 1344, 0.67))"
  unfolding calculate_new_size_by_pixel_area_def Let_def area_start_examples
  by (simp add: round_to_nearest_multiple_def py_round_def pixel_area_loop.simps
      with_aspect_ratio_def calculate_image_aspect_ratio_def to_round_def py_round_ndigits_def)

lemma pixel_area_example_1:
  "calculate_new_size_by_pixel_area example_args 0.68 1 = Some (Inr (832, 1216, 0.68))"
  unfolding calculate_new_size_by_pixel_area_def Let_def area_start_examples
  by (simp add: round_to_nearest_multiple_def py_round_def pixel_area_loop.simps
      with_aspect_ratio_def calculate_image_aspect_ratio_def to_round_def py_round_ndigits_def)

lemma resize_area_example:
  "resize_image (Some (3400, 5000)) 1216 1792 None
     = Some (Inr (OutImage (1216, 1792), [(2550, 3750), (1912, 2812), (1434, 2109)]))"
  by (simp add: resize_image_def resize_stages.simps py_int_def)

lemma prepare_image_area_example:
  "prepare_image example_args example_area_backend example_crop_fn 1 (Some (3400, 5000)) None
     ''area''
   = Some (Inr \<lparr>final_image = Some (1024, 1024), target_width = 896, target_height = 1344,
                 new_aspect_ratio = 0.67, crop_coordinates = (0, 0)\<rparr>)"
proof -
  have "round_to_nearest_multiple example_args (1 * 1000) = Inr 1024"
    by (simp add: round_to_nearest_multiple_def py_round_def)
  moreover have "downsample_decision example_area_backend (3400, 5000) 1 ''area'' = Inr (2, True)"
    by (simp add: downsample_decision_def truthy_def is_image_too_large_def)
  moreover have "calculate_image_aspect_ratio example_args (3400, 5000) = Inr 0.68"
    by (simp add: calculate_image_aspect_ratio_def to_round_def py_round_ndigits_def py_round_def)
  moreover have "crop_branch example_args example_area_backend example_crop_fn ''area''
                   (Some (3400, 5000)) None 0.68 1024 True (1216, 1792, 0.68)
      = Some (Inr \<lparr>final_image = Some (1024, 1024), target_width = 896, target_height = 1344,
                 new_aspect_ratio = 0.67, crop_coordinates = (0, 0)\<rparr>)"
    using pixel_area_example_1024
    by (simp add: crop_branch_def crop_handlers_def bind_result_def resize_area_example
        recalculate_target_def)
  ultimately show ?thesis
    using pixel_area_example_2
    by (simp add: prepare_image_def derive_image_size_def bind_result_def
        calculate_new_size_def)
qed

lemma downsample_area_target_differs:
  "calculate_image_aspect_ratio example_args (3400, 5000) = Inr 0.68
   \<and> prepared_target
        (prepare_image example_args example_area_backend example_crop_fn 1 (Some (3400, 5000))
           None ''area'') = Some (896, 1344)
   \<and> resolver_size (calculate_new_size example_args ''area'' 0.68 1) = Some (832, 1216)"
  using pixel_area_example_1
  by (simp add: prepare_image_area_example prepared_target_def resolver_size_def
      calculate_new_size_def
      calculate_image_aspect_ratio_def to_round_def py_round_ndigits_def py_round_def)

text \<open>
  With size metadata only the branch does not return at all: its debug message reads
  \<open>image.size\<close> on \<open>None\<close>.
\<close>

lemma downsample_metadata_only_raises:
  "prepare_image example_args example_backend example_crop_fn 1024 None (Some (4000, 2000))
     ''pixel''
   = Some (Inl AttributeError)"
proof -
  have "round_to_nearest_multiple example_args 1024 = Inr 1024"
    by (simp add: round_to_nearest_multiple_def py_round_def)
  moreover have "downsample_decision example_backend (4000, 2000) 1024 ''pixel'' = Inr (1024, True)"
    by (simp add: downsample_decision_def truthy_def is_image_too_large_def)
  moreover have "calculate_image_aspect_ratio example_args (4000, 2000) = Inr 2"
    by (simp add: calculate_image_aspect_ratio_def to_round_def py_round_ndigits_def py_round_def)
  moreover have "crop_branch example_args example_backend example_crop_fn ''pixel''
                   None (Some (4000, 2000)) 2 1024 True (2048, 1024, 2)
      = Some (Inl AttributeError)"
    by (simp add: crop_branch_def crop_handlers_def bind_result_def)
  ultimately show ?thesis
    by (simp add: prepare_image_def derive_image_size_def bind_result_def
        calculate_new_size_def pixel_edge_example_1024)
qed

subsection \<open>Resolutions that are already aligned\<close>

lemma pixel_edge_example_512:
  "calculate_new_size_by_pixel_edge example_args 2 512 = Some (Inr (1024, 512, 2))"
  by (simp add: calculate_new_size_by_pixel_edge_def pixel_edge_initial_def
      round_to_nearest_multiple_def py_round_def pixel_edge_loop.simps with_aspect_ratio_def
      calculate_image_aspect_ratio_def to_round_def py_round_ndigits_def)

text \<open>
  When the branch triggers on a pixel image and the caller's resolution is already
  aligned (in pixel mode the resolution, in area mode the resolution times 1000, is a
  positive multiple of the alignment constant), rounding changes nothing:
  \<open>prepare_image\<close> returns and its final \<open>(target_width, target_height)\<close> is the size the
  resolver of that resolution type yields directly from the caller's resolution and the
  original aspect ratio.
\<close>

theorem downsample_target_matches_aligned_resolution:
  assumes m: "0 < aspect_bucket_alignment cfg"
    and ar: "calculate_image_aspect_ratio cfg image_size = Inr a" "0 < a"
    and trig: "crop bcfg" "truthy (maximum_image_size bcfg)"
      "truthy (target_downsample_size bcfg)"
      "is_image_too_large image_size (the (maximum_image_size bcfg)) resolution_type = Inr True"
    and style: "crop_handlers (crop_style bcfg) = Some handler"
    and aligned: "1 \<le> k"
      "(if resolution_type = ''area'' then resolution * 1000 else resolution)
         = of_int (k * aspect_bucket_alignment cfg)"
  shows "prepared_target
           (prepare_image cfg bcfg crop_fn resolution (Some image_size) image_metadata
              resolution_type)
         = resolver_size (calculate_new_size cfg resolution_type a resolution)
       \<and> resolver_size (calculate_new_size cfg resolution_type a resolution) \<noteq> None"
proof -
  let ?R = "k * aspect_bucket_alignment cfg"
  let ?tds = "the (target_downsample_size bcfg)"
  have rt: "resolution_type = ''pixel'' \<or> resolution_type = ''area''"
    using trig(4) by (auto simp: is_image_too_large_def split: if_splits)
  have orig: "round_to_nearest_multiple cfg
                (if resolution_type = ''area'' then resolution * 1000 else resolution) = Inr ?R"
    unfolding aligned(2) by (rule round_to_nearest_multiple_fixed [OF m aligned(1)])
  have dec: "downsample_decision bcfg image_size resolution resolution_type = Inr (?tds, True)"
    using trig by (simp add: downsample_decision_def)
  obtain W1 H1 ar1 where first:
    "calculate_new_size cfg resolution_type a ?tds = Some (Inr (W1, H1, ar1))"
    and pos1: "0 < W1" "0 < H1"
    using calculate_new_size_returns [OF m ar(2) rt, of ?tds] by blast
  obtain W2 H2 ar2 where second:
    "calculate_new_size cfg resolution_type a resolution = Some (Inr (W2, H2, ar2))"
    using calculate_new_size_returns [OF m ar(2) rt, of resolution] by blast
  obtain stages where resized:
    "resize_image (Some image_size) W1 H1 None = Some (Inr (OutImage (W1, H1), stages))"
    using resize_image_with_image [of W1 H1 image_size None] pos1 by auto
  have recalc: "recalculate_target cfg resolution_type a ?R (W1, H1, ar1)
                  = Some (Inr (W2, H2, ar2))"
    using recalculate_target_eq [OF rt aligned(2)] second by simp
  have "prepared_target
          (crop_branch cfg bcfg crop_fn resolution_type (Some image_size) image_metadata a ?R
             True (W1, H1, ar1)) = Some (W2, H2)"
    using style resized recalc
    by (simp add: crop_branch_def bind_result_def prepared_target_def Let_def
        split: prod.splits)
  then have "prepared_target
           (prepare_image cfg bcfg crop_fn resolution (Some image_size) image_metadata
              resolution_type) = Some (W2, H2)"
    using orig dec ar(1) first trig(1)
    by (simp add: prepare_image_def derive_image_size_def bind_result_def)
  then show ?thesis using second by (simp add: resolver_size_def)
qed


theorem downsample_target_matches_aligned_resolution_witness:
  "prepared_target
     (prepare_image example_args example_backend example_crop_fn 512 (Some (4000, 2000)) None
        ''pixel'')
     = Some (1024, 512)
   \<and> resolver_size (calculate_new_size example_args ''pixel'' 2 512) = Some (1024, 512)
   \<and> resolver_size (calculate_new_size example_args ''pixel'' 2 1024) = Some (2048, 1024)"
proof -
  have ar: "calculate_image_aspect_ratio example_args (4000, 2000) = Inr 2"
    by (simp add: calculate_image_aspect_ratio_def to_round_def py_round_ndigits_def py_round_def)
  have big: "is_image_too_large (4000, 2000) (the (maximum_image_size example_backend)) ''pixel''
               = Inr True"
    by (simp add: is_image_too_large_def)
  have style: "crop_handlers (crop_style example_backend) = Some CenterCropping"
    by (simp add: crop_handlers_def)
  have aligned: "(if ''pixel'' = ''area'' then 512 * 1000 else (512::real))
                   = of_int (8 * aspect_bucket_alignment example_args)"
    by simp
  have direct: "resolver_size (calculate_new_size example_args ''pixel'' 2 512) = Some (1024, 512)"
    by (simp add: resolver_size_def calculate_new_size_def pixel_edge_example_512)
  have first: "resolver_size (calculate_new_size example_args ''pixel'' 2 1024) = Some (2048, 1024)"
    by (simp add: resolver_size_def calculate_new_size_def pixel_edge_example_1024)
  have "prepared_target
     (prepare_image example_args example_backend example_crop_fn 512 (Some (4000, 2000)) None
        ''pixel'')
     = resolver_size (calculate_new_size example_args ''pixel'' 2 512)"
    using downsample_target_matches_aligned_resolution
            [of example_args "(4000, 2000)" 2 example_backend "''pixel''" CenterCropping 8 512
                example_crop_fn None, OF _ ar _ _ _ _ big style _ aligned]
    by (simp add: truthy_def)
  then show ?thesis using direct first by simp
qed

section \<open>The bucket index store\<close>

text \<open>
  Claim C8. A decode failure in \<open>_process_image\<close> is logged, the mapping comes back
  unchanged, and no exception leaves the function: the worker goes on with the rest of
  its shard.
\<close>

theorem decode_failure_is_skipped:
  assumes "store image_path_str = Inl e"
  shows "process_image store image_path_str indices
           = (indices,
              [LogError (''Error processing image '' @ image_path_str @ ''.''), LogException e])
       \<and> (image_path_str \<notin> existing_files_set \<longrightarrow>
            bucket_worker store (image_path_str # files) indices existing_files_set
              = (case bucket_worker store files indices existing_files_set of
                   (progress, partials, logged) \<Rightarrow>
                     (1 # progress, indices # partials,
                      [LogError (''Error processing image '' @ image_path_str @ ''.''),
                       LogException e] @ logged)))"
  using assms by (simp add: process_image_def)

theorem decode_failure_is_skipped_witness:
  "process_image bad_store ''bad.png'' [] 
     = ([], [LogError ''Error processing image bad.png.'', LogException OSError])
   \<and> bucket_worker bad_store [''bad.png'', ''good.png''] [] {}
     = ([1, 1], [[], [(''1.0'', [''good.png''])]],
        [LogError ''Error processing image bad.png.'', LogException OSError])"
proof -
  have good: "bucket_worker bad_store [''good.png''] [] {}
                = ([1], [[(''1.0'', [''good.png''])]], [])"
    by (simp add: process_image_def py_round_ndigits_def py_round_def str_float_def Let_def)
  show ?thesis
    using decode_failure_is_skipped
            [of bad_store "''bad.png''" OSError "[]" "{}" "[''good.png'']"] good
    by simp
qed

subsection \<open>Concrete runs of the bulk computation\<close>

lemma process_image_square_empty:
  "process_image square_store p [] = ([(''1.0'', [p])], [])"
  by (simp add: process_image_def py_round_ndigits_def py_round_def str_float_def Let_def)

lemma process_image_square_present:
  "process_image square_store p [(''1.0'', fs)] = ([(''1.0'', fs @ [p])], [])"
  by (simp add: process_image_def py_round_ndigits_def py_round_def str_float_def Let_def)

lemma six_as_Suc: "(6::nat) = Suc (Suc (Suc (Suc (Suc (Suc 0)))))"
  by simp

lemma replicate_six: "replicate 6 x = [x, x, x, x, x, x]"
  by (simp only: six_as_Suc replicate.simps)

lemma array_split_two: "array_split [a, b] 8 = [[a], [b], [], [], [], [], [], []]"
  by (simp add: array_split_def replicate_six)

lemma interleavings_two:
  "interleavings [[x], [y], [], [], [], [], [], []] = {[x, y], [y, x]}"
  by (simp add: insert_commute)

lemma interleavings_one:
  "interleavings [[x], [], [], [], [], [], [], []] = {[x]}"
  by simp

lemma interleavings_one_second:
  "interleavings [[], [x], [], [], [], [], [], []] = {[x]}"
  by simp

lemma worker_queues_first_run:
  "worker_queues square_store [''a.png'', ''b.png''] fresh_dataset
     = [[[(''1.0'', [''a.png''])]], [[(''1.0'', [''b.png''])]], [], [], [], [], [], []]"
  by (simp add: worker_queues_def array_split_two bucket_files_def process_image_square_empty)

text \<open>
  Claim C3. Every file a worker processed should be in the returned mapping under its
  key. Two 512 x 512 files land in two shards; each worker emits a mapping with its own
  file under the key 1.0, and the coordinator's \<open>update\<close> replaces the list of that key
  by the list of the mapping that arrives last. In either arrival order one of the two
  files is missing from the returned mapping.
\<close>

theorem bulk_merge_loses_other_workers_files:
  "returned_mappings square_store [''a.png'', ''b.png''] fresh_dataset
     = {[(''1.0'', [''a.png''])], [(''1.0'', [''b.png''])]}"
  by (simp add: returned_mappings_def compute_aspect_ratio_bucket_indices_def
      worker_queues_first_run interleavings_two compute_with_arrivals_def Let_def
      insert_commute)

lemma first_run_outcome:
  "(fresh_dataset\<lparr>instance_images_path := [PathString ''a.png'', PathString ''b.png''],
                   num_instance_images := 2, dataset_length := 2\<rparr>,
    JsonText (JObject [(''1.0'', JArray [JString ''b.png''])]),
    [(''1.0'', [''b.png''])])
   \<in> compute_aspect_ratio_bucket_indices square_store [''a.png'', ''b.png''] fresh_dataset"
proof -
  have "compute_with_arrivals [''a.png'', ''b.png''] fresh_dataset
          [[(''1.0'', [''a.png''])], [(''1.0'', [''b.png''])]]
        = (fresh_dataset\<lparr>instance_images_path := [PathString ''a.png'', PathString ''b.png''],
                   num_instance_images := 2, dataset_length := 2\<rparr>,
           JsonText (JObject [(''1.0'', JArray [JString ''b.png''])]),
           [(''1.0'', [''b.png''])])"
    by (simp add: compute_with_arrivals_def Let_def index_to_json_def)
  moreover have "[[(''1.0'', [''a.png''])], [(''1.0'', [''b.png''])]]
      \<in> interleavings (worker_queues square_store [''a.png'', ''b.png''] fresh_dataset)"
    by (simp only: worker_queues_first_run interleavings_two insertI1)
  ultimately show ?thesis
    unfolding compute_aspect_ratio_bucket_indices_def by (rule image_eqI [OF sym])
qed

lemma worker_queues_second_run:
  "worker_queues square_store [''a.png'', ''b.png'']
     (fresh_dataset\<lparr>aspect_ratio_bucket_indices := [(''1.0'', [''b.png''])],
                    instance_images_path := [PathString ''a.png'', PathString ''b.png''],
                    num_instance_images := 2, dataset_length := 2\<rparr>)
     = [[[(''1.0'', [''b.png'', ''a.png''])]], [], [], [], [], [], [], []]"
  by (simp add: worker_queues_def array_split_two bucket_files_def process_image_square_present)

text \<open>
  Claim C7. A second run over the same files should add nothing. After the first run
  above has returned the mapping that holds only \<open>b.png\<close>, and the object has stored it,
  the second run processes \<open>a.png\<close> again and returns a mapping with one more file.
\<close>

theorem second_run_adds_a_file:
  "(fresh_dataset\<lparr>instance_images_path := [PathString ''a.png'', PathString ''b.png''],
                   num_instance_images := 2, dataset_length := 2\<rparr>,
    JsonText (JObject [(''1.0'', JArray [JString ''b.png''])]),
    [(''1.0'', [''b.png''])])
   \<in> compute_aspect_ratio_bucket_indices square_store [''a.png'', ''b.png''] fresh_dataset
   \<and> returned_mappings square_store [''a.png'', ''b.png'']
        (store_result
           (fresh_dataset\<lparr>instance_images_path := [PathString ''a.png'', PathString ''b.png''],
                   num_instance_images := 2, dataset_length := 2\<rparr>,
            JsonText (JObject [(''1.0'', JArray [JString ''b.png''])]),
            [(''1.0'', [''b.png''])]))
       = {[(''1.0'', [''b.png'', ''a.png''])]}"
proof -
  have "returned_mappings square_store [''a.png'', ''b.png'']
        (fresh_dataset\<lparr>aspect_ratio_bucket_indices := [(''1.0'', [''b.png''])],
                    instance_images_path := [PathString ''a.png'', PathString ''b.png''],
                    num_instance_images := 2, dataset_length := 2\<rparr>)
       = {[(''1.0'', [''b.png'', ''a.png''])]}"
    unfolding returned_mappings_def compute_aspect_ratio_bucket_indices_def
      worker_queues_second_run interleavings_one
    by (simp add: compute_with_arrivals_def Let_def)
  then show ?thesis using first_run_outcome by (simp add: store_result_def)
qed

subsection \<open>The cache file\<close>

text \<open>
  Claim C4 as stated fails for an absent cache file: the file is opened outside the
  \<open>try\<close>, and the exception of \<open>open\<close> reaches the caller.
\<close>

theorem load_missing_cache_raises:
  "load_aspect_ratio_bucket_indices ''aspect_ratio_bucket_indices.json'' None
     = (Inl FileNotFoundError,
        [LogInfo ''Loading aspect ratio bucket indices from cache file.''])"
  by (simp add: load_aspect_ratio_bucket_indices_def)

text \<open>
  Claim C4, as amended. For a cache file that exists and does not parse,
  \<open>load_aspect_ratio_bucket_indices\<close> returns the empty index and logs a warning; it
  raises nothing.
\<close>

theorem load_unparsable_cache_gives_empty_index:
  "load_aspect_ratio_bucket_indices cache_path (Some (NotJson text))
     = (Inr (JObject []),
        [LogInfo ''Loading aspect ratio bucket indices from cache file.'',
         LogWarning (''Could not load aspect ratio bucket indices from '' @ cache_path
                     @ ''. Creating a new one!''),
         LogInfo ''Loading of aspect bucket indexes completed.''])"
  by (simp add: load_aspect_ratio_bucket_indices_def)

lemma json_strings_map: "json_strings (map JString files) = Some files"
  by (induction files) simp_all

lemma json_buckets_map:
  "json_buckets (map (\<lambda>(k, files). (k, JArray (map JString files))) d) = Some d"
  by (induction d) (auto simp: json_strings_map)

lemma json_to_index_inverse: "json_to_index (index_to_json d) = Some d"
  by (simp add: json_to_index_def index_to_json_def json_buckets_map)

lemma worker_queues_bad_run:
  "worker_queues bad_store [''a.png'', ''bad.png'']
     \<lparr>aspect_ratio_bucket_indices = [(''1.0'', [''a.png''])],
      instance_images_path = [PathString ''a.png'', PathString ''bad.png''],
      num_instance_images = 2, dataset_length = 2\<rparr>
     = [[], [[(''1.0'', [''a.png''])]], [], [], [], [], [], []]"
  by (simp add: worker_queues_def array_split_two bucket_files_def process_image_def)

text \<open>
  Claim C5 as stated fails for the known-file list: only the bucket mapping is written.
  Here the object knows \<open>a.png\<close> and \<open>bad.png\<close>, the latter in no bucket; the run
  writes the mapping alone, and what is loaded back holds no \<open>bad.png\<close>.
\<close>

theorem save_omits_known_files:
  "compute_aspect_ratio_bucket_indices bad_store [''a.png'', ''bad.png'']
     \<lparr>aspect_ratio_bucket_indices = [(''1.0'', [''a.png''])],
      instance_images_path = [PathString ''a.png'', PathString ''bad.png''],
      num_instance_images = 2, dataset_length = 2\<rparr>
   = {(\<lparr>aspect_ratio_bucket_indices = [(''1.0'', [''a.png''])],
        instance_images_path = [PathString ''a.png'', PathString ''bad.png''],
        num_instance_images = 2, dataset_length = 2\<rparr>,
       JsonText (JObject [(''1.0'', JArray [JString ''a.png''])]),
       [(''1.0'', [''a.png''])])}
   \<and> fst (load_aspect_ratio_bucket_indices ''aspect_ratio_bucket_indices.json''
             (Some (JsonText (JObject [(''1.0'', JArray [JString ''a.png''])]))))
     = Inr (JObject [(''1.0'', JArray [JString ''a.png''])])"
  unfolding compute_aspect_ratio_bucket_indices_def worker_queues_bad_run
    interleavings_one_second
  by (simp add: compute_with_arrivals_def Let_def index_to_json_def
      load_aspect_ratio_bucket_indices_def)

text \<open>
  Claim C5, as amended. What the bulk computation writes is the bucket mapping, and
  loading that file gives the same mapping back.
\<close>

theorem cache_round_trip_bucket_mapping:
  "fst (load_aspect_ratio_bucket_indices cache_path
          (Some (fst (snd (compute_with_arrivals all_image_files self arrivals)))))
     = Inr (index_to_json (snd (snd (compute_with_arrivals all_image_files self arrivals))))
   \<and> json_to_index
        (index_to_json (snd (snd (compute_with_arrivals all_image_files self arrivals))))
     = Some (snd (snd (compute_with_arrivals all_image_files self arrivals)))"
  by (simp add: json_to_index_inverse load_aspect_ratio_bucket_indices_def
      compute_with_arrivals_def Let_def)

subsection \<open>A run over files that are all in buckets already\<close>

lemma bucket_worker_all_known:
  "set files \<subseteq> existing \<Longrightarrow>
   bucket_worker store files indices existing = (replicate (length files) 1, [], [])"
  by (induction files) simp_all

lemma split_sizes_subset:
  "shard \<in> set (split_sizes xs ns) \<Longrightarrow> set shard \<subseteq> set xs"
proof (induction ns arbitrary: xs)
  case Nil
  then show ?case by simp
next
  case (Cons n ns)
  from Cons.prems have "shard = take n xs \<or> shard \<in> set (split_sizes (drop n xs) ns)"
    by simp
  then show ?case
  proof
    assume "shard = take n xs"
    then show ?thesis by (simp add: set_take_subset)
  next
    assume "shard \<in> set (split_sizes (drop n xs) ns)"
    then have "set shard \<subseteq> set (drop n xs)" by (rule Cons.IH)
    also have "\<dots> \<subseteq> set xs" by (rule set_drop_subset)
    finally show ?thesis .
  qed
qed

lemma array_split_subset:
  "shard \<in> set (array_split xs sections) \<Longrightarrow> set shard \<subseteq> set xs"
  unfolding array_split_def Let_def by (rule split_sizes_subset)

lemma worker_queues_all_known:
  assumes "set all_image_files \<subseteq> bucket_files (aspect_ratio_bucket_indices self)"
    and "q \<in> set (worker_queues store all_image_files self)"
  shows "q = []"
proof -
  from assms(2) obtain shard where shard: "shard \<in> set (array_split all_image_files 8)"
    and q: "q = fst (snd (bucket_worker store shard (aspect_ratio_bucket_indices self)
                            (bucket_files (aspect_ratio_bucket_indices self))))"
    by (auto simp: worker_queues_def)
  from array_split_subset [OF shard] assms(1)
  have "set shard \<subseteq> bucket_files (aspect_ratio_bucket_indices self)" by (rule subset_trans)
  then show ?thesis unfolding q by (simp add: bucket_worker_all_known)
qed

lemma interleavings_all_empty:
  "(\<And>q. q \<in> set qs \<Longrightarrow> q = []) \<Longrightarrow> interleavings qs = {[]}"
  by (induction qs) simp_all

text \<open>
  When every file found under the root is already in some bucket, each worker skips
  its whole shard and puts nothing on the result queue: the run returns the mapping the
  object already had, whatever the scheduling.
\<close>

theorem rerun_with_all_files_known:
  assumes "set all_image_files \<subseteq> bucket_files (aspect_ratio_bucket_indices self)"
  shows "returned_mappings store all_image_files self = {aspect_ratio_bucket_indices self}"
proof -
  have "interleavings (worker_queues store all_image_files self) = {[]}"
    by (rule interleavings_all_empty) (rule worker_queues_all_known [OF assms])
  then show ?thesis
    by (simp add: returned_mappings_def compute_aspect_ratio_bucket_indices_def
        compute_with_arrivals_def Let_def)
qed

theorem rerun_with_all_files_known_witness:
  "set [''a.png'', ''b.png'']
     \<subseteq> bucket_files [(''1.0'', [''a.png'', ''b.png''])]
   \<and> returned_mappings square_store [''a.png'', ''b.png'']
        \<lparr>aspect_ratio_bucket_indices = [(''1.0'', [''a.png'', ''b.png''])],
         instance_images_path = [PathString ''a.png'', PathString ''b.png''],
         num_instance_images = 2, dataset_length = 2\<rparr>
     = {[(''1.0'', [''a.png'', ''b.png''])]}"
  using rerun_with_all_files_known
          [of "[''a.png'', ''b.png'']"
              "\<lparr>aspect_ratio_bucket_indices = [(''1.0'', [''a.png'', ''b.png''])],
                instance_images_path = [PathString ''a.png'', PathString ''b.png''],
                num_instance_images = 2, dataset_length = 2\<rparr>" square_store]
  by (simp add: bucket_files_def)

end
